theory Spec2Isabelle
  imports Complex_Main
begin

section \<open>Arudhra Fashions backend: invoice renderer and password reset\<close>

text \<open>
  A shallow embedding of \<^verbatim>\<open>generateInvoicePDF\<close> (the PDF invoice generator) and of the
  \<^verbatim>\<open>forgot-password\<close> and \<^verbatim>\<open>reset-password\<close> handlers of \<^verbatim>\<open>authRoutes.js\<close>.

  Conventions of the embedding.
  \<^item> A JavaScript number is a \<open>jsnum\<close>: \<open>NaN\<close>, the two infinities, or a finite value kept
    as an exact rational. IEEE rounding of parsed literals, sums and products is not
    modelled, so a last printed digit can differ from the host's where a decimal value is
    not a double (1.005 prints as 1.01 here); \<open>+0\<close> and \<open>-0\<close> are one value (they print alike
    under \<^verbatim>\<open>toFixed\<close>). Page coordinates are exact rationals as well.
  \<^item> Library functions whose result depends on font metrics, on the host's time zone, on
    the shortest round-trip digits of a double or on a cryptographic hash are fields of
    the environment record and stay arbitrary in every general theorem.
  \<^item> The PDF document is a record holding the pages drawn so far (each a list of drawing
    operations) and the current text style; every drawing call returns the new document.
\<close>

subsection \<open>JavaScript numbers and their printing\<close>

datatype jsnum = NaN | PosInf | NegInf | Fin rat

text \<open>Scalar property values as JSON or the ORM delivers them.\<close>

datatype jsval = Undefined | Null | JBool bool | JNum jsnum | JStr string

text \<open>\<^verbatim>\<open>ToBoolean\<close>: what \<^verbatim>\<open>!v\<close> and \<^verbatim>\<open>v || w\<close> test.\<close>

fun truthy :: "jsval \<Rightarrow> bool" where
  "truthy Undefined = False"
| "truthy Null = False"
| "truthy (JBool b) = b"
| "truthy (JNum NaN) = False"
| "truthy (JNum (Fin q)) = (q \<noteq> 0)"
| "truthy (JNum PosInf) = True"
| "truthy (JNum NegInf) = True"
| "truthy (JStr s) = (s \<noteq> [])"

definition js_or :: "jsval \<Rightarrow> jsval \<Rightarrow> jsval" where
  "js_or a b = (if truthy a then a else b)"

text \<open>\<^verbatim>\<open>s || t\<close> on optional strings (a missing property is \<open>None\<close>).\<close>

definition str_truthy :: "string option \<Rightarrow> bool" where
  "str_truthy s = (case s of None \<Rightarrow> False | Some t \<Rightarrow> t \<noteq> [])"

definition str_or :: "string option \<Rightarrow> string option \<Rightarrow> string option" where
  "str_or a b = (if str_truthy a then a else b)"

definition str_or_lit :: "string option \<Rightarrow> string \<Rightarrow> string" where
  "str_or_lit a d = (case a of None \<Rightarrow> d | Some t \<Rightarrow> if t = [] then d else t)"

definition is_digit :: "char \<Rightarrow> bool" where
  "is_digit c = (c \<in> set ''0123456789'')"

definition digit_val :: "char \<Rightarrow> nat" where
  "digit_val c = of_char c - 48"

definition digit_char :: "nat \<Rightarrow> char" where
  "digit_char d = ''0123456789'' ! (d mod 10)"

text \<open>Value of a run of decimal digits, most significant first.\<close>

fun digits_val :: "nat \<Rightarrow> string \<Rightarrow> nat" where
  "digits_val acc [] = acc"
| "digits_val acc (c # cs) = digits_val (10 * acc + digit_val c) cs"

text \<open>Decimal digits of a natural number, as template literals and \<^verbatim>\<open>toString\<close> print an
  integer below \<open>10^21\<close>.\<close>

fun show_nat :: "nat \<Rightarrow> string" where
  "show_nat n = (if n < 10 then [digit_char n] else show_nat (n div 10) @ [digit_char n])"

declare show_nat.simps [simp del]

text \<open>The ASCII members of \<^verbatim>\<open>StrWhiteSpaceChar\<close>, which \<^verbatim>\<open>parseFloat\<close> skips at the front.\<close>

definition is_space :: "char \<Rightarrow> bool" where
  "is_space c = (of_char c \<in> {9, 10, 11, 12, 13, 32 :: nat})"

text \<open>The exponent part \<^verbatim>\<open>(e|E)[+-]?digits\<close> of a decimal literal; 0 when the text does not
  go on with a complete exponent.\<close>

definition exponent_part :: "string \<Rightarrow> int" where
  "exponent_part s =
     (case s of
        [] \<Rightarrow> 0
      | c # r \<Rightarrow>
          if c = CHR ''e'' \<or> c = CHR ''E'' then
            (case r of
               [] \<Rightarrow> 0
             | d # r' \<Rightarrow>
                 if d = CHR ''+'' then
                   (if takeWhile is_digit r' = [] then 0
                    else int (digits_val 0 (takeWhile is_digit r')))
                 else if d = CHR ''-'' then
                   (if takeWhile is_digit r' = [] then 0
                    else - int (digits_val 0 (takeWhile is_digit r')))
                 else int (digits_val 0 (takeWhile is_digit r)))
          else 0)"

definition pow10 :: "int \<Rightarrow> rat" where
  "pow10 e = (if 0 \<le> e then 10 ^ nat e else 1 / 10 ^ nat (- e))"

text \<open>The longest prefix that is a \<^verbatim>\<open>StrUnsignedDecimalLiteral\<close>:
  \<^verbatim>\<open>Infinity\<close>, \<^verbatim>\<open>digits[.digits?][exp]\<close> or \<^verbatim>\<open>.digits[exp]\<close>; \<open>NaN\<close> when there is none.\<close>

definition parse_unsigned :: "string \<Rightarrow> jsnum" where
  "parse_unsigned s =
     (if take 8 s = ''Infinity'' then PosInf
      else
        let ip = takeWhile is_digit s;
            r1 = dropWhile is_digit s;
            dot = (r1 \<noteq> [] \<and> hd r1 = CHR ''.'');
            fp = (if dot then takeWhile is_digit (tl r1) else []);
            r2 = (if dot then dropWhile is_digit (tl r1) else r1)
        in if ip = [] \<and> fp = [] then NaN
           else Fin (of_nat (digits_val 0 (ip @ fp)) / 10 ^ length fp * pow10 (exponent_part r2)))"

definition jsneg :: "jsnum \<Rightarrow> jsnum" where
  "jsneg n = (case n of NaN \<Rightarrow> NaN | PosInf \<Rightarrow> NegInf | NegInf \<Rightarrow> PosInf | Fin q \<Rightarrow> Fin (- q))"

text \<open>\<^verbatim>\<open>parseFloat\<close> on a string.\<close>

definition parseFloat_str :: "string \<Rightarrow> jsnum" where
  "parseFloat_str s =
     (case dropWhile is_space s of
        [] \<Rightarrow> NaN
      | c # r \<Rightarrow>
          if c = CHR ''+'' then parse_unsigned r
          else if c = CHR ''-'' then jsneg (parse_unsigned r)
          else parse_unsigned (c # r))"

text \<open>\<^verbatim>\<open>parseFloat(v)\<close> converts its argument to a string first: \<^verbatim>\<open>undefined\<close>, \<^verbatim>\<open>null\<close>,
  \<^verbatim>\<open>true\<close> and \<^verbatim>\<open>false\<close> have no numeric prefix, and a number prints to a string that
  parses back to itself.\<close>

fun parseFloat :: "jsval \<Rightarrow> jsnum" where
  "parseFloat Undefined = NaN"
| "parseFloat Null = NaN"
| "parseFloat (JBool b) = NaN"
| "parseFloat (JNum n) = n"
| "parseFloat (JStr s) = parseFloat_str s"

text \<open>\<^verbatim>\<open>a * b\<close> on numbers.\<close>

fun jsmul :: "jsnum \<Rightarrow> jsnum \<Rightarrow> jsnum" where
  "jsmul (Fin a) (Fin b) = Fin (a * b)"
| "jsmul NaN _ = NaN"
| "jsmul _ NaN = NaN"
| "jsmul PosInf (Fin b) = (if b = 0 then NaN else if 0 < b then PosInf else NegInf)"
| "jsmul NegInf (Fin b) = (if b = 0 then NaN else if 0 < b then NegInf else PosInf)"
| "jsmul (Fin a) PosInf = (if a = 0 then NaN else if 0 < a then PosInf else NegInf)"
| "jsmul (Fin a) NegInf = (if a = 0 then NaN else if 0 < a then NegInf else PosInf)"
| "jsmul PosInf PosInf = PosInf"
| "jsmul NegInf NegInf = PosInf"
| "jsmul PosInf NegInf = NegInf"
| "jsmul NegInf PosInf = NegInf"

text \<open>\<^verbatim>\<open>x > 0\<close> on numbers: false for \<open>NaN\<close>.\<close>

fun js_gt0 :: "jsnum \<Rightarrow> bool" where
  "js_gt0 (Fin q) = (0 < q)"
| "js_gt0 PosInf = True"
| "js_gt0 _ = False"

text \<open>The digits \<^verbatim>\<open>toFixed(2)\<close> prints for the integer \<open>n\<close> of hundredths: at least three
  digits, a point before the last two.\<close>

definition fixed2 :: "nat \<Rightarrow> string" where
  "fixed2 n =
     (let ds = show_nat n;
          m = replicate (3 - length ds) CHR ''0'' @ ds
      in take (length m - 2) m @ ''.'' @ drop (length m - 2) m)"

text \<open>\<^verbatim>\<open>Number.prototype.toFixed(2)\<close>. The integer \<open>n\<close> with \<open>n / 100\<close> nearest to \<open>|x|\<close>, the
  larger one on a tie, is \<open>\<lfloor>|x| * 100 + 1/2\<rfloor>\<close>. From \<open>10^21\<close> on the result is
  \<^verbatim>\<open>ToString(x)\<close>, taken from the parameter \<open>big\<close>.\<close>

fun toFixed2 :: "(rat \<Rightarrow> string) \<Rightarrow> jsnum \<Rightarrow> string" where
  "toFixed2 big NaN = ''NaN''"
| "toFixed2 big PosInf = ''Infinity''"
| "toFixed2 big NegInf = ''-Infinity''"
| "toFixed2 big (Fin x) =
     (if 10 ^ 21 \<le> \<bar>x\<bar> then (if x < 0 then ''-'' else '''') @ big \<bar>x\<bar>
      else (if x < 0 then ''-'' else '''') @ fixed2 (nat \<lfloor>\<bar>x\<bar> * 100 + 1 / 2\<rfloor>))"

text \<open>\<^verbatim>\<open>Number.prototype.toString()\<close>: an integer below \<open>10^21\<close> prints its decimal digits;
  any other finite value is left to the parameter \<open>big\<close>.\<close>

fun num_toString :: "(rat \<Rightarrow> string) \<Rightarrow> jsnum \<Rightarrow> string" where
  "num_toString big NaN = ''NaN''"
| "num_toString big PosInf = ''Infinity''"
| "num_toString big NegInf = ''-Infinity''"
| "num_toString big (Fin x) =
     (if of_int \<lfloor>x\<rfloor> = x \<and> \<bar>x\<bar> < 10 ^ 21
      then (if x < 0 then ''-'' else '''') @ show_nat (nat \<lfloor>\<bar>x\<bar>\<rfloor>)
      else (if x < 0 then ''-'' else '''') @ big \<bar>x\<bar>)"

subsection \<open>Page geometry and the columns of the line-item table\<close>

definition pageWidth :: rat where "pageWidth = 59528 / 100"
definition pageHeight :: rat where "pageHeight = 84189 / 100"
definition margin :: rat where "margin = 40"
definition contentWidth :: rat where "contentWidth = pageWidth - margin * 2"

definition colItem :: rat where "colItem = margin + 10"
definition colItemWidth :: rat where "colItemWidth = 180"
definition colSize :: rat where "colSize = colItem + colItemWidth + 8"
definition colSizeWidth :: rat where "colSizeWidth = 42"
definition colColor :: rat where "colColor = colSize + colSizeWidth + 8"
definition colColorWidth :: rat where "colColorWidth = 52"
definition colQty :: rat where "colQty = colColor + colColorWidth + 8"
definition colQtyWidth :: rat where "colQtyWidth = 32"
definition colPrice :: rat where "colPrice = colQty + colQtyWidth + 8"
definition colPriceWidth :: rat where "colPriceWidth = 70"
definition colTotal :: rat where "colTotal = colPrice + colPriceWidth + 8"
definition colTotalWidth :: rat where "colTotalWidth = 80"

subsection \<open>The colour palette and \<^verbatim>\<open>hexToRgb\<close>\<close>

definition primary :: string where "primary = ''#C89E7E''"
definition primaryDark :: string where "primaryDark = ''#7A5051''"
definition primaryLight :: string where "primaryLight = ''#CAB19B''"
definition secondary :: string where "secondary = ''#AB8A8A''"
definition background :: string where "background = ''#FAF8F5''"
definition textPrimary :: string where "textPrimary = ''#3A1F23''"
definition textSecondary :: string where "textSecondary = ''#7A5051''"
definition white :: string where "white = ''#FFFFFF''"

definition is_hex :: "char \<Rightarrow> bool" where
  "is_hex c = (c \<in> set ''0123456789abcdefABCDEF'')"

definition hex_val :: "char \<Rightarrow> nat" where
  "hex_val c =
     (if is_digit c then of_char c - 48
      else if c \<in> set ''abcdef'' then of_char c - 87
      else of_char c - 55)"

text \<open>The regular expression \<^verbatim>\<open>/^#?([a-f\d]{2})([a-f\d]{2})([a-f\d]{2})$/i\<close> and the three
  \<^verbatim>\<open>parseInt(_, 16)\<close>; \<open>None\<close> is the \<^verbatim>\<open>null\<close> of a failed match.\<close>

definition hexToRgb :: "string \<Rightarrow> (nat \<times> nat \<times> nat) option" where
  "hexToRgb hex =
     (let h = (if hex \<noteq> [] \<and> hd hex = CHR ''#'' then tl hex else hex)
      in if length h = 6 \<and> list_all is_hex h
         then Some (16 * hex_val (h ! 0) + hex_val (h ! 1),
                    16 * hex_val (h ! 2) + hex_val (h ! 3),
                    16 * hex_val (h ! 4) + hex_val (h ! 5))
         else None)"

text \<open>The template literal \<^verbatim>\<open>`rgb(${c.r}, ${c.g}, ${c.b})`\<close>.\<close>

definition rgb_string :: "nat \<times> nat \<times> nat \<Rightarrow> string" where
  "rgb_string c =
     (case c of (r, g, b) \<Rightarrow>
        ''rgb('' @ show_nat r @ '', '' @ show_nat g @ '', '' @ show_nat b @ '')'')"

subsection \<open>The document-drawing primitive\<close>

datatype font = Helvetica | Helvetica_Bold | Times_Italic

datatype align = AlignLeft | AlignCenter | AlignRight

record style =
  st_size :: rat
  st_font :: font
  st_fill :: string
  st_opacity :: rat

text \<open>What reaches a page: an image, a text with its position, optional width and
  alignment and the style in force when it is drawn, a filled and a stroked rectangle.\<close>

datatype drawop =
    Image string rat rat rat
  | Text string rat rat "rat option" "align option" style
  | FillRect rat rat rat rat string
  | StrokeRect rat rat rat rat string rat

text \<open>The document: the pages already left, the current page, the current style and
  \<^verbatim>\<open>doc.y\<close>. Every read of \<^verbatim>\<open>doc.y\<close> in the source directly follows an assignment to it, so
  the advance that \<^verbatim>\<open>text\<close> itself gives \<^verbatim>\<open>doc.y\<close> is not modelled; neither is the page break
  the library inserts by itself when a text runs past the bottom edge of the page.\<close>

record doc =
  prev_pages :: "drawop list list"
  page :: "drawop list"
  d_style :: style
  d_strokeColor :: string
  d_lineWidth :: rat
  d_y :: rat
  ended :: bool

definition all_pages :: "doc \<Rightarrow> drawop list list" where
  "all_pages d = prev_pages d @ [page d]"

text \<open>\<^verbatim>\<open>new PDFDocument({size: 'A4', margin: 0, layout: 'portrait'})\<close>: one empty page, the
  library's initial style.\<close>

definition new_PDFDocument :: doc where
  "new_PDFDocument =
     \<lparr>prev_pages = [], page = [],
      d_style = \<lparr>st_size = 12, st_font = Helvetica, st_fill = ''black'', st_opacity = 1\<rparr>,
      d_strokeColor = ''black'', d_lineWidth = 1, d_y = 0, ended = False\<rparr>"

definition draw :: "drawop \<Rightarrow> doc \<Rightarrow> doc" where
  "draw x d = d\<lparr>page := page d @ [x]\<rparr>"

definition fontSize :: "rat \<Rightarrow> doc \<Rightarrow> doc" where
  "fontSize n d = d\<lparr>d_style := (d_style d)\<lparr>st_size := n\<rparr>\<rparr>"

definition set_font :: "font \<Rightarrow> doc \<Rightarrow> doc" where
  "set_font f d = d\<lparr>d_style := (d_style d)\<lparr>st_font := f\<rparr>\<rparr>"

definition fillColor :: "string \<Rightarrow> doc \<Rightarrow> doc" where
  "fillColor c d = d\<lparr>d_style := (d_style d)\<lparr>st_fill := c\<rparr>\<rparr>"

definition opacity :: "rat \<Rightarrow> doc \<Rightarrow> doc" where
  "opacity a d = d\<lparr>d_style := (d_style d)\<lparr>st_opacity := a\<rparr>\<rparr>"

definition doc_text :: "string \<Rightarrow> rat \<Rightarrow> rat \<Rightarrow> rat option \<Rightarrow> align option \<Rightarrow> doc \<Rightarrow> doc" where
  "doc_text s x y w a d = draw (Text s x y w a (d_style d)) d"

text \<open>\<^verbatim>\<open>doc.rect(x, y, w, h).fillColor(c).fill()\<close>.\<close>

definition fill_rect :: "rat \<Rightarrow> rat \<Rightarrow> rat \<Rightarrow> rat \<Rightarrow> string \<Rightarrow> doc \<Rightarrow> doc" where
  "fill_rect x y w h c d = draw (FillRect x y w h c) (fillColor c d)"

text \<open>\<^verbatim>\<open>doc.rect(x, y, w, h).strokeColor(c).lineWidth(lw).stroke()\<close>.\<close>

definition stroke_rect :: "rat \<Rightarrow> rat \<Rightarrow> rat \<Rightarrow> rat \<Rightarrow> string \<Rightarrow> rat \<Rightarrow> doc \<Rightarrow> doc" where
  "stroke_rect x y w h c lw d =
     draw (StrokeRect x y w h c lw) (d\<lparr>d_strokeColor := c, d_lineWidth := lw\<rparr>)"

definition addPage :: "doc \<Rightarrow> doc" where
  "addPage d = d\<lparr>prev_pages := prev_pages d @ [page d], page := []\<rparr>"

definition doc_end :: "doc \<Rightarrow> doc" where
  "doc_end d = d\<lparr>ended := True\<rparr>"

subsection \<open>Orders, customers and the environment of a render\<close>

record address =
  a_name :: "string option"
  a_mobile :: "string option"
  a_email :: "string option"
  a_address :: "string option"
  a_city :: "string option"
  a_state :: "string option"
  a_zipCode :: "string option"
  a_zip :: "string option"

record user =
  u_name :: "string option"
  u_mobile :: "string option"
  u_email :: "string option"

text \<open>A line item. \<open>i_product_name\<close> is \<^verbatim>\<open>item.product?.name\<close>; the quantity is a JSON number
  or absent; \<open>i_other\<close> holds every property the renderer has no name for, such as a
  stored line total.\<close>

record item =
  i_name :: "string option"
  i_product_name :: "string option"
  i_size :: "string option"
  i_color :: "string option"
  i_quantity :: "jsnum option"
  i_price :: jsval
  i_other :: "(string \<times> jsval) list"

text \<open>\<^verbatim>\<open>order.items\<close>: absent, a scalar, or an array of items.\<close>

datatype items_field = ItemsMissing | ItemsScalar jsval | ItemsArray "item list"

text \<open>A date property: a string, or a \<^verbatim>\<open>Date\<close> object with its time value in milliseconds
  (\<open>None\<close> for an invalid date).\<close>

datatype dateval = DateStr string | DateObj "int option"

record order =
  o_orderId :: "string option"
  o_createdAt :: "dateval option"
  o_orderDate :: "dateval option"
  o_date :: "dateval option"
  o_items :: items_field
  o_subtotal :: jsval
  o_shippingCost :: jsval
  o_tax :: jsval
  o_total :: jsval
  o_shippingAddress :: "address option"

text \<open>What a render reads from outside: the two directories resolved from
  \<^verbatim>\<open>__dirname\<close>, the file system, the clock, and the library functions left abstract.\<close>

record env =
  invoicesDir :: string
  logoPaths :: "string list"
  existsSync :: "string \<Rightarrow> bool"
  mkdir_throws :: bool
  image_throws :: bool
  stream_error :: bool
  date_now :: nat
  new_date :: int
  parseDate :: "string \<Rightarrow> int option"
  fmtDate :: "int \<Rightarrow> string"
  heightOfString :: "style \<Rightarrow> string \<Rightarrow> rat \<Rightarrow> rat"
  bigToString :: "rat \<Rightarrow> string"

datatype effect =
    MkdirSync string
  | CreateWriteStream string string
  | ConsoleError string

datatype error =
    MkdirFailed
  | InvalidItems
  | TypeError
  | StreamFailed

record outcome =
  effects :: "effect list"
  document :: "doc option"
  result :: "error + string"

subsection \<open>\<^verbatim>\<open>generateInvoicePDF\<close>, section by section\<close>

text \<open>\<^verbatim>\<open>${order.orderId}\<close> in a template literal: a missing property prints \<^verbatim>\<open>undefined\<close>.\<close>

definition template_str :: "string option \<Rightarrow> string" where
  "template_str s = (case s of None \<Rightarrow> ''undefined'' | Some t \<Rightarrow> t)"

text \<open>Lines 47 to 49: the file name and its path under the invoices directory.\<close>

definition filename :: "env \<Rightarrow> order \<Rightarrow> string" where
  "filename e ord = ''invoice-'' @ template_str (o_orderId ord) @ ''-'' @ show_nat (date_now e) @ ''.pdf''"

definition filepath :: "env \<Rightarrow> order \<Rightarrow> string" where
  "filepath e ord = invoicesDir e @ ''/'' @ filename e ord"

text \<open>Lines 75 to 81: the first candidate path that exists.\<close>

definition logoPath :: "env \<Rightarrow> string option" where
  "logoPath e = find (existsSync e) (logoPaths e)"

text \<open>Lines 86 to 102: the logo, when a file was found; a failure of \<^verbatim>\<open>doc.image\<close> is caught
  and logged.\<close>

definition draw_logo :: "env \<Rightarrow> effect list \<times> doc \<Rightarrow> effect list \<times> doc" where
  "draw_logo e s =
     (case s of (fx, d) \<Rightarrow>
        let logoSize = 130;
            logoX = pageWidth - margin - logoSize;
            logoY = margin
        in case logoPath e of
             None \<Rightarrow> (fx, d)
           | Some lp \<Rightarrow>
               if existsSync e lp then
                 (if image_throws e then (fx @ [ConsoleError ''Error loading logo:''], d)
                  else (fx, draw (Image lp logoX logoY logoSize) d))
               else (fx, d))"

definition date_truthy :: "dateval option \<Rightarrow> bool" where
  "date_truthy v =
     (case v of None \<Rightarrow> False | Some (DateStr s) \<Rightarrow> s \<noteq> [] | Some (DateObj t) \<Rightarrow> True)"

text \<open>Line 132: \<^verbatim>\<open>order.createdAt || order.orderDate || order.date || new Date()\<close>.\<close>

definition date_or :: "dateval option \<Rightarrow> dateval option \<Rightarrow> dateval option" where
  "date_or a b = (if date_truthy a then a else b)"

definition dateValue :: "env \<Rightarrow> order \<Rightarrow> dateval" where
  "dateValue e ord =
     (case date_or (date_or (o_createdAt ord) (o_orderDate ord)) (o_date ord) of
        None \<Rightarrow> DateObj (Some (new_date e))
      | Some v \<Rightarrow> if date_truthy (Some v) then v else DateObj (Some (new_date e)))"

text \<open>\<^verbatim>\<open>new Date(v)\<close>: the time value, \<open>None\<close> for an invalid date.\<close>

definition new_Date :: "env \<Rightarrow> dateval \<Rightarrow> int option" where
  "new_Date e v = (case v of DateStr s \<Rightarrow> parseDate e s | DateObj t \<Rightarrow> t)"

text \<open>\<^verbatim>\<open>toLocaleDateString('en-IN', {year: 'numeric', month: 'long', day: 'numeric'})\<close>. On an
  invalid date it returns the text \<^verbatim>\<open>Invalid Date\<close>; it does not raise.\<close>

definition toLocaleDateString :: "env \<Rightarrow> int option \<Rightarrow> error + string" where
  "toLocaleDateString e t = Inr (case t of None \<Rightarrow> ''Invalid Date'' | Some ms \<Rightarrow> fmtDate e ms)"

text \<open>Lines 131 to 146: the \<^verbatim>\<open>try\<close> formats \<open>dateValue\<close>, the \<^verbatim>\<open>catch\<close> formats the current
  time.\<close>

definition invoiceDate :: "env \<Rightarrow> order \<Rightarrow> string" where
  "invoiceDate e ord =
     (case toLocaleDateString e (new_Date e (dateValue e ord)) of
        Inr s \<Rightarrow> s
      | Inl err \<Rightarrow>
          (case toLocaleDateString e (Some (new_date e)) of Inr s \<Rightarrow> s | Inl err' \<Rightarrow> ''N/A''))"

definition invoiceTitleY :: rat where "invoiceTitleY = margin + 30"
definition invoiceInfoY :: rat where "invoiceInfoY = invoiceTitleY + 35"

text \<open>Lines 104 to 160: title, invoice number and date, centred.\<close>

definition header_section :: "env \<Rightarrow> order \<Rightarrow> doc \<Rightarrow> doc" where
  "header_section e ord d =
     (let d1 = doc_text ''INVOICE'' margin invoiceTitleY (Some contentWidth) (Some AlignCenter)
                 (fillColor primaryDark (set_font Helvetica_Bold (fontSize 36 d)));
          d2 = doc_text ''Invoice No:'' margin invoiceInfoY (Some contentWidth) (Some AlignCenter)
                 (fillColor textSecondary (set_font Helvetica (fontSize 10 d1)));
          d3 = doc_text (str_or_lit (o_orderId ord) ''N/A'') margin (invoiceInfoY + 15)
                 (Some contentWidth) (Some AlignCenter)
                 (fillColor textPrimary (set_font Helvetica_Bold (fontSize 12 d2)));
          d4 = doc_text ''Date:'' margin (invoiceInfoY + 35) (Some contentWidth) (Some AlignCenter)
                 (fillColor textSecondary (set_font Helvetica (fontSize 10 d3)))
      in doc_text (invoiceDate e ord) margin (invoiceInfoY + 50) (Some contentWidth) (Some AlignCenter)
           (fillColor textPrimary (set_font Helvetica_Bold (fontSize 12 d4))))"

definition billToBoxY :: rat where "billToBoxY = invoiceInfoY + 90"
definition billToBoxHeight :: rat where "billToBoxHeight = 100"

text \<open>\<^verbatim>\<open>order.shippingAddress?.f\<close>.\<close>

definition addr_field :: "(address \<Rightarrow> string option) \<Rightarrow> address option \<Rightarrow> string option" where
  "addr_field f a = (case a of None \<Rightarrow> None | Some x \<Rightarrow> f x)"

text \<open>\<^verbatim>\<open>[a, b, c].filter(Boolean).join(', ')\<close>.\<close>

fun join_comma :: "string list \<Rightarrow> string" where
  "join_comma [] = []"
| "join_comma [x] = x"
| "join_comma (x # y # ys) = x @ '', '' @ join_comma (y # ys)"

definition cityStateZip :: "address \<Rightarrow> string" where
  "cityStateZip a =
     join_comma (filter (\<lambda>s. s \<noteq> [])
       [str_or_lit (a_city a) [], str_or_lit (a_state a) [],
        str_or_lit (str_or (a_zipCode a) (a_zip a)) []])"

text \<open>A line of the billing block, drawn only when the text is not empty; the cursor then
  moves down by 15.\<close>

definition bill_line :: "string \<Rightarrow> string \<Rightarrow> rat \<times> doc \<Rightarrow> rat \<times> doc" where
  "bill_line label s st =
     (case st of (currentY, d) \<Rightarrow>
        if s \<noteq> [] then (currentY + 15, doc_text (label @ s) (margin + 10) currentY (Some 260) None d)
        else (currentY, d))"

text \<open>Lines 162 to 230: the billing block in its box of fixed height; it leaves
  \<^verbatim>\<open>doc.y\<close> at \<open>tableStartY\<close>.\<close>

definition customer_section :: "order \<Rightarrow> user \<Rightarrow> doc \<Rightarrow> doc" where
  "customer_section ord usr d =
     (let d1 = fill_rect margin billToBoxY 280 billToBoxHeight background d;
          d2 = stroke_rect margin billToBoxY 280 billToBoxHeight primaryLight (3 / 2) d1;
          d3 = doc_text ''Bill To:'' (margin + 10) (billToBoxY + 10) None None
                 (fillColor primaryDark (set_font Helvetica_Bold (fontSize 12 d2)));
          customerName = str_or_lit (str_or (u_name usr) (addr_field a_name (o_shippingAddress ord))) ''Customer'';
          customerAddress = o_shippingAddress ord;
          customerMobile = str_or_lit (str_or (u_mobile usr) (addr_field a_mobile (o_shippingAddress ord))) [];
          customerEmail = str_or_lit (str_or (u_email usr) (addr_field a_email (o_shippingAddress ord))) [];
          d4 = doc_text customerName (margin + 10) (billToBoxY + 25) (Some 260) None
                 (fillColor textPrimary (set_font Helvetica_Bold (fontSize 11 d3)));
          d5 = fillColor textSecondary (set_font Helvetica (fontSize 9 d4));
          s0 = (billToBoxY + 25 + 18, d5);
          s1 = (case customerAddress of
                  None \<Rightarrow> s0
                | Some a \<Rightarrow> bill_line [] (cityStateZip a) (bill_line [] (str_or_lit (a_address a) []) s0));
          s2 = bill_line ''Mobile: '' customerMobile s1;
          s3 = bill_line ''Email: '' customerEmail s2;
          currentY = billToBoxY + billToBoxHeight + 20;
          tableStartY = currentY + 10
      in (snd s3)\<lparr>d_y := tableStartY\<rparr>)"

text \<open>Line 233: \<^verbatim>\<open>!order.items || !Array.isArray(order.items) || order.items.length === 0\<close>.\<close>

definition items_truthy :: "items_field \<Rightarrow> bool" where
  "items_truthy f = (case f of ItemsMissing \<Rightarrow> False | ItemsScalar v \<Rightarrow> truthy v | ItemsArray xs \<Rightarrow> True)"

definition isArray :: "items_field \<Rightarrow> bool" where
  "isArray f = (case f of ItemsArray xs \<Rightarrow> True | _ \<Rightarrow> False)"

definition items_of :: "items_field \<Rightarrow> item list" where
  "items_of f = (case f of ItemsArray xs \<Rightarrow> xs | _ \<Rightarrow> [])"

definition items_invalid :: "items_field \<Rightarrow> bool" where
  "items_invalid f = (\<not> items_truthy f \<or> \<not> isArray f \<or> length (items_of f) = 0)"

definition headerRowHeight :: rat where "headerRowHeight = 32"

text \<open>The six header cells, drawn in one chain at height \<open>y\<close> (lines 269 to 276 and 301 to
  308).\<close>

definition header_cells :: "rat \<Rightarrow> doc \<Rightarrow> doc" where
  "header_cells y d =
     doc_text ''Total'' colTotal y (Some colTotalWidth) (Some AlignRight)
      (doc_text ''Price'' colPrice y (Some colPriceWidth) (Some AlignRight)
        (doc_text ''Qty'' colQty y (Some colQtyWidth) (Some AlignCenter)
          (doc_text ''Color'' colColor y (Some colColorWidth) (Some AlignCenter)
            (doc_text ''Size'' colSize y (Some colSizeWidth) (Some AlignCenter)
              (doc_text ''Item'' colItem y (Some colItemWidth) (Some AlignLeft)
                (fillColor white (set_font Helvetica_Bold (fontSize 11 d))))))))"

text \<open>Lines 237 to 283: the header row of the table on the first page; returns the
  document and the first \<open>itemsY\<close>.\<close>

definition table_header :: "nat \<times> nat \<times> nat \<Rightarrow> doc \<Rightarrow> rat \<times> doc" where
  "table_header primaryDarkRgb d =
     (let headerY = d_y d;
          d1 = fill_rect margin headerY contentWidth headerRowHeight (rgb_string primaryDarkRgb) d;
          d2 = header_cells (headerY + 10) d1;
          d3 = d2\<lparr>d_y := headerY + headerRowHeight + 12\<rparr>;
          itemsY = d_y d3
      in (itemsY, fillColor textPrimary (set_font Helvetica (fontSize 10 d3))))"

text \<open>Lines 294 to 310: the page break inside the loop, with the header drawn again.\<close>

definition page_break :: "nat \<times> nat \<times> nat \<Rightarrow> doc \<Rightarrow> rat \<times> doc" where
  "page_break primaryDarkRgb d =
     (let d1 = addPage d;
          itemsY = margin + 20;
          d2 = fill_rect margin (itemsY - 10) contentWidth headerRowHeight (rgb_string primaryDarkRgb) d1;
          d3 = header_cells (itemsY - 2) d2
      in (itemsY + (headerRowHeight + 12), d3))"

text \<open>Line 289: \<^verbatim>\<open>item.quantity || 1\<close>.\<close>

definition quantity_of :: "item \<Rightarrow> jsnum" where
  "quantity_of it =
     (case i_quantity it of None \<Rightarrow> Fin 1 | Some q \<Rightarrow> if truthy (JNum q) then q else Fin 1)"

text \<open>Line 290: \<^verbatim>\<open>parseFloat(item.price || 0)\<close>, and the same coercion of the order's amounts
  (lines 341 to 344).\<close>

definition money :: "jsval \<Rightarrow> jsnum" where
  "money v = parseFloat (js_or v (JNum (Fin 0)))"

text \<open>\<^verbatim>\<open>`Rs. ${x.toFixed(2)}`\<close>.\<close>

definition rs :: "env \<Rightarrow> jsnum \<Rightarrow> string" where
  "rs e x = ''Rs. '' @ toFixed2 (bigToString e) x"

text \<open>Line 286: \<^verbatim>\<open>item.name || item.product?.name || 'Product'\<close>.\<close>

definition itemName :: "item \<Rightarrow> string" where
  "itemName it = str_or_lit (str_or (i_name it) (i_product_name it)) ''Product''"

text \<open>Lines 323 to 333: the six cells of a row, drawn in one chain at height \<open>y\<close>.\<close>

definition row_cells :: "env \<Rightarrow> item \<Rightarrow> rat \<Rightarrow> doc \<Rightarrow> doc" where
  "row_cells e it y d =
     (let isize = str_or_lit (i_size it) ''-'';
          icolor = str_or_lit (i_color it) ''-'';
          quantity = quantity_of it;
          price = money (i_price it);
          total = jsmul price quantity
      in doc_text (rs e total) colTotal y (Some colTotalWidth) (Some AlignRight)
          (doc_text (rs e price) colPrice y (Some colPriceWidth) (Some AlignRight)
            (doc_text (num_toString (bigToString e) quantity) colQty y (Some colQtyWidth) (Some AlignCenter)
              (doc_text (str_or_lit (Some icolor) ''-'') colColor y (Some colColorWidth) (Some AlignCenter)
                (doc_text (str_or_lit (Some isize) ''-'') colSize y (Some colSizeWidth) (Some AlignCenter)
                  (doc_text (itemName it) colItem y (Some colItemWidth) (Some AlignLeft)
                    (set_font Helvetica (fontSize 10 (fillColor textPrimary d)))))))))"

text \<open>Lines 285 to 336: the body of \<^verbatim>\<open>order.items.forEach((item, index) => ...)\<close>. The state is
  the cursor \<open>itemsY\<close> and the document.\<close>

definition item_step :: "env \<Rightarrow> nat \<times> nat \<times> nat \<Rightarrow> rat \<times> doc \<Rightarrow> nat \<Rightarrow> item \<Rightarrow> rat \<times> doc" where
  "item_step e primaryDarkRgb st index it =
     (case st of (itemsY0, d0) \<Rightarrow>
        let st1 = (if itemsY0 > pageHeight - 250 then page_break primaryDarkRgb d0 else (itemsY0, d0));
            itemsY = fst st1;
            d1 = snd st1;
            itemNameHeight = heightOfString e (d_style d1) (itemName it) colItemWidth;
            rowHeight = max 24 (itemNameHeight + 12);
            d2 = (if index mod 2 = 0
                  then fill_rect margin (itemsY - 3) contentWidth rowHeight background d1
                  else d1)
        in (itemsY + rowHeight, row_cells e it itemsY d2))"

fun forEach_items :: "env \<Rightarrow> nat \<times> nat \<times> nat \<Rightarrow> nat \<Rightarrow> item list \<Rightarrow> rat \<times> doc \<Rightarrow> rat \<times> doc" where
  "forEach_items e rgb index [] st = st"
| "forEach_items e rgb index (it # its) st = forEach_items e rgb (Suc index) its (item_step e rgb st index it)"

text \<open>A label and its amount in the totals block (lines 352 to 358, 362 to 369, 374 to 381
  and 388 to 394): the label in the colour given, the value in \<open>textPrimary\<close>, both at the
  size and in the font given.\<close>

definition totals_line :: "string \<Rightarrow> string \<Rightarrow> rat \<Rightarrow> rat \<Rightarrow> font \<Rightarrow> string \<Rightarrow> doc \<Rightarrow> doc" where
  "totals_line label v totalsY sz f labelColor d =
     (let totalsStartX = colTotal;
          totalsLabelWidth = 100;
          totalsValueWidth = colTotalWidth
      in doc_text v totalsStartX totalsY (Some totalsValueWidth) (Some AlignRight)
           (set_font f (fontSize sz (fillColor textPrimary
             (doc_text label (totalsStartX - totalsLabelWidth - 10) totalsY (Some totalsLabelWidth) (Some AlignRight)
               (fillColor labelColor (set_font f (fontSize sz d))))))))"

text \<open>Lines 338 to 396: the totals block. It starts at \<open>itemsY + 20\<close> and leaves
  \<^verbatim>\<open>doc.y\<close> 30 below the Total line.\<close>

definition totals_section :: "env \<Rightarrow> order \<Rightarrow> rat \<Rightarrow> doc \<Rightarrow> doc" where
  "totals_section e ord itemsY d =
     (let d0 = d\<lparr>d_y := itemsY + 20\<rparr>;
          subtotal = money (o_subtotal ord);
          shippingCost = money (o_shippingCost ord);
          tax = money (o_tax ord);
          grandTotal = money (o_total ord);
          totalsY = d_y d0;
          d1 = totals_line ''Subtotal:'' (rs e subtotal) totalsY 10 Helvetica textSecondary d0;
          totalsY1 = totalsY + 20;
          d2 = (if js_gt0 shippingCost
                then totals_line ''Shipping:'' (rs e shippingCost) totalsY1 10 Helvetica textSecondary d1
                else d1);
          totalsY2 = (if js_gt0 shippingCost then totalsY1 + 20 else totalsY1);
          d3 = (if js_gt0 tax
                then totals_line ''Tax (GST):'' (rs e tax) totalsY2 10 Helvetica textSecondary d2
                else d2);
          totalsY3 = (if js_gt0 tax then totalsY2 + 20 else totalsY2);
          totalsY4 = totalsY3 + 8;
          d4 = totals_line ''Total:'' (rs e grandTotal) totalsY4 13 Helvetica_Bold primaryDark d3
      in d4\<lparr>d_y := totalsY4 + 30\<rparr>)"

text \<open>Lines 398 to 431: the footer, then \<^verbatim>\<open>doc.end()\<close>.\<close>

definition footer_section :: "doc \<Rightarrow> doc" where
  "footer_section d =
     (let footerY = d_y d + 20;
          d1 = doc_text ''Thank You for Shopping with Arudhra Fashions!'' margin footerY
                 (Some contentWidth) (Some AlignCenter)
                 (fillColor primaryDark (set_font Helvetica_Bold (fontSize 18 d)));
          footerTextY = footerY + 30;
          d2 = opacity 1
                 (doc_text ''This computer-generated document is valid without signature or company stamp.''
                    margin footerTextY (Some contentWidth) (Some AlignCenter)
                    (opacity (8 / 10) (fillColor textSecondary (set_font Helvetica (fontSize 9 d1)))));
          brandY = footerTextY + 25;
          d3 = doc_text ''Arudhra Fashions'' (pageWidth - margin - 150) brandY (Some 150) (Some AlignRight)
                 (fillColor primaryDark (set_font Times_Italic (fontSize 15 d2)))
      in doc_end d3)"

text \<open>Lines 228 to 431: everything after the billing block. The items are validated
  first; a failed \<^verbatim>\<open>hexToRgb\<close> would make \<^verbatim>\<open>primaryDarkRgb.r\<close> raise a \<^verbatim>\<open>TypeError\<close>.\<close>

definition table_and_totals :: "env \<Rightarrow> order \<Rightarrow> doc \<Rightarrow> error + doc" where
  "table_and_totals e ord d =
     (if items_invalid (o_items ord) then Inl InvalidItems
      else case hexToRgb primaryDark of
             None \<Rightarrow> Inl TypeError
           | Some primaryDarkRgb \<Rightarrow>
               let st = forEach_items e primaryDarkRgb 0 (items_of (o_items ord)) (table_header primaryDarkRgb d)
               in Inr (footer_section (totals_section e ord (fst st) (snd st))))"

text \<open>Lines 38 to 444. The promise is rejected by whatever the body raises
  (\<^verbatim>\<open>catch (error) { reject(error) }\<close>) or by the stream's \<^verbatim>\<open>error\<close> event, and resolved
  with the reference when the stream finishes. \<^verbatim>\<open>fs.createWriteStream(filepath)\<close> is
  called with no options, so the file is opened with the flag \<^verbatim>\<open>w\<close>.\<close>

definition generateInvoicePDF :: "env \<Rightarrow> order \<Rightarrow> user \<Rightarrow> outcome" where
  "generateInvoicePDF e ord usr =
     (if \<not> existsSync e (invoicesDir e) \<and> mkdir_throws e
      then \<lparr>effects = [MkdirSync (invoicesDir e)], document = None, result = Inl MkdirFailed\<rparr>
      else
        let fx0 = (if \<not> existsSync e (invoicesDir e) then [MkdirSync (invoicesDir e)] else []);
            fx1 = fx0 @ [CreateWriteStream (filepath e ord) ''w''];
            s = draw_logo e (fx1, new_PDFDocument);
            d = customer_section ord usr (header_section e ord (snd s))
        in case table_and_totals e ord d of
             Inl err \<Rightarrow> \<lparr>effects = fst s, document = Some d, result = Inl err\<rparr>
           | Inr d' \<Rightarrow>
               \<lparr>effects = fst s, document = Some d',
                result = (if stream_error e then Inl StreamFailed
                          else Inr (''/uploads/invoices/'' @ filename e ord))\<rparr>)"

subsection \<open>Password reset: \<^verbatim>\<open>POST /api/auth/forgot-password\<close> and \<^verbatim>\<open>/reset-password\<close>\<close>

text \<open>A row of the users table, with the columns the two handlers touch. The handler
  assigns the new password to \<^verbatim>\<open>user.password\<close> and saves; what the model's save hook
  makes of it is outside these files.\<close>

record account =
  acc_id :: nat
  acc_email :: string
  acc_name :: string
  acc_password :: string
  passwordResetToken :: "string option"
  passwordResetExpires :: "int option"

text \<open>What a request reads from outside: the clock, the 32 random bytes in hexadecimal,
  the hash function, whether the mail service raises and whether
  \<^verbatim>\<open>NODE_ENV\<close> is \<^verbatim>\<open>development\<close>.\<close>

record auth_env =
  clock :: int
  randomToken :: string
  sha256 :: "string \<Rightarrow> string"
  mail_throws :: bool
  development :: bool

text \<open>A response: the status, the message and, in development only, the token echoed in
  the body (the reset link beside it is left out).\<close>

record response =
  status :: nat
  message :: string
  body_resetToken :: "string option"

record mail =
  mail_to :: string
  mail_token :: string
  mail_name :: string

definition reply :: "nat \<Rightarrow> string \<Rightarrow> response" where
  "reply code msg = \<lparr>status = code, message = msg, body_resetToken = None\<rparr>"

text \<open>\<^verbatim>\<open>String.prototype.trim\<close> on ASCII white space.\<close>

definition trim :: "string \<Rightarrow> string" where
  "trim s = rev (dropWhile is_space (rev (dropWhile is_space s)))"

text \<open>\<^verbatim>\<open>/^[^\s@]+@[^\s@]+\.[^\s@]+$/\<close>: no white space, exactly one \<^verbatim>\<open>@\<close> with text before it,
  and after it a dot that is neither the first nor the last character.\<close>

definition valid_email :: "string \<Rightarrow> bool" where
  "valid_email s =
     (let loc = takeWhile (\<lambda>c. c \<noteq> CHR ''@'') s;
          rest = dropWhile (\<lambda>c. c \<noteq> CHR ''@'') s;
          dom = tl rest
      in list_all (\<lambda>c. \<not> is_space c) s \<and> loc \<noteq> [] \<and> rest \<noteq> []
         \<and> CHR ''@'' \<notin> set dom
         \<and> list_ex (\<lambda>i. dom ! i = CHR ''.'') [1 ..< length dom - 1])"

text \<open>\<^verbatim>\<open>User.findOne({where: ...})\<close>: the first row that matches; \<^verbatim>\<open>user.save()\<close>: the row
  with the user's primary key is replaced.\<close>

definition findOne :: "(account \<Rightarrow> bool) \<Rightarrow> account list \<Rightarrow> account option" where
  "findOne P db = find P db"

definition save :: "account \<Rightarrow> account list \<Rightarrow> account list" where
  "save u db = map (\<lambda>r. if acc_id r = acc_id u then u else r) db"

text \<open>Lines 125 to 176 of \<^verbatim>\<open>authRoutes.js\<close>. The result is the table, the mail sent and the
  response. The row is saved before the mail is sent, so a failing mail service leaves
  the token stored and answers 500.\<close>

definition forgot_password ::
  "auth_env \<Rightarrow> string option \<Rightarrow> account list \<Rightarrow> account list \<times> mail list \<times> response" where
  "forgot_password e email db =
     (let trimmedEmail = (case email of None \<Rightarrow> [] | Some s \<Rightarrow> trim s)
      in if trimmedEmail = [] then (db, [], reply 400 ''Please provide an email address'')
         else if \<not> valid_email trimmedEmail
           then (db, [], reply 400 ''Please provide a valid email address.'')
         else case findOne (\<lambda>u. acc_email u = trimmedEmail) db of
                None \<Rightarrow> (db, [], reply 404 ''No account found with that email address.'')
              | Some user \<Rightarrow>
                  let resetToken = randomToken e;
                      hashedResetToken = sha256 e resetToken;
                      resetTokenExpires = clock e + 60 * 60 * 1000;
                      user' = user\<lparr>passwordResetToken := Some hashedResetToken,
                                   passwordResetExpires := Some resetTokenExpires\<rparr>;
                      db' = save user' db
                  in if mail_throws e then (db', [], reply 500 ''Server error'')
                     else (db', [\<lparr>mail_to = acc_email user', mail_token = resetToken, mail_name = acc_name user'\<rparr>],
                           \<lparr>status = 200,
                            message = ''Password reset instructions have been sent to your email address'',
                            body_resetToken = (if development e then Some resetToken else None)\<rparr>))"

text \<open>The \<^verbatim>\<open>where\<close> clause of \<^verbatim>\<open>reset-password\<close>: the stored hash equals the hash of the
  presented token and the stored expiry is greater than the current time
  (\<^verbatim>\<open>[Op.gt]: new Date()\<close>). A \<^verbatim>\<open>NULL\<close> column matches nothing.\<close>

definition token_matches :: "auth_env \<Rightarrow> string \<Rightarrow> account \<Rightarrow> bool" where
  "token_matches e token u =
     (passwordResetToken u = Some (sha256 e token)
      \<and> (case passwordResetExpires u of None \<Rightarrow> False | Some t \<Rightarrow> clock e < t))"

text \<open>Lines 181 to 217 of \<^verbatim>\<open>authRoutes.js\<close>.\<close>

definition reset_password ::
  "auth_env \<Rightarrow> string option \<Rightarrow> string option \<Rightarrow> account list \<Rightarrow> account list \<times> response" where
  "reset_password e token newPassword db =
     (if \<not> str_truthy token \<or> \<not> str_truthy newPassword
        then (db, reply 400 ''Token and new password are required'')
      else if length (str_or_lit newPassword []) < 8
        then (db, reply 400 ''Password must be at least 8 characters'')
      else case findOne (token_matches e (str_or_lit token [])) db of
             None \<Rightarrow> (db, reply 400 ''Reset token is invalid or has expired'')
           | Some user \<Rightarrow>
               (save (user\<lparr>acc_password := str_or_lit newPassword [],
                           passwordResetToken := None,
                           passwordResetExpires := None\<rparr>) db,
                reply 200 ''Password reset successful''))"

subsection \<open>Reading a drawn document\<close>

text \<open>All drawing operations of a document in the order they were issued.\<close>

definition all_ops :: "doc \<Rightarrow> drawop list" where
  "all_ops d = concat (all_pages d)"

text \<open>The string, size and font of a text operation.\<close>

fun text_summary :: "drawop \<Rightarrow> (string \<times> rat \<times> font) option" where
  "text_summary (Text s x y w a st) = Some (s, st_size st, st_font st)"
| "text_summary _ = None"

fun text_of :: "drawop \<Rightarrow> string" where
  "text_of (Text s x y w a st) = s"
| "text_of _ = []"

text \<open>The operations a document holds beyond those of an earlier state of it.\<close>

definition ops_since :: "doc \<Rightarrow> doc \<Rightarrow> drawop list" where
  "ops_since d d' = drop (length (all_ops d)) (all_ops d')"

text \<open>The styles of a header cell and of a body cell; only the opacity is inherited from the
  document.\<close>

definition header_style :: "rat \<Rightarrow> style" where
  "header_style op = \<lparr>st_size = 11, st_font = Helvetica_Bold, st_fill = white, st_opacity = op\<rparr>"

definition row_style :: "rat \<Rightarrow> style" where
  "row_style op = \<lparr>st_size = 10, st_font = Helvetica, st_fill = textPrimary, st_opacity = op\<rparr>"

text \<open>The seven operations of a table header: the filled bar at \<open>rectY\<close> and the six labels
  at \<open>textY\<close>.\<close>

definition header_row :: "nat \<times> nat \<times> nat \<Rightarrow> rat \<Rightarrow> rat \<Rightarrow> rat \<Rightarrow> drawop list" where
  "header_row rgb rectY textY op =
     [FillRect margin rectY contentWidth headerRowHeight (rgb_string rgb),
      Text ''Item'' colItem textY (Some colItemWidth) (Some AlignLeft) (header_style op),
      Text ''Size'' colSize textY (Some colSizeWidth) (Some AlignCenter) (header_style op),
      Text ''Color'' colColor textY (Some colColorWidth) (Some AlignCenter) (header_style op),
      Text ''Qty'' colQty textY (Some colQtyWidth) (Some AlignCenter) (header_style op),
      Text ''Price'' colPrice textY (Some colPriceWidth) (Some AlignRight) (header_style op),
      Text ''Total'' colTotal textY (Some colTotalWidth) (Some AlignRight) (header_style op)]"

text \<open>\<^verbatim>\<open>Math.max(24, itemNameHeight + 12)\<close>, measured in the style \<open>st\<close>.\<close>

definition row_height :: "env \<Rightarrow> style \<Rightarrow> item \<Rightarrow> rat" where
  "row_height e st it = max 24 (heightOfString e st (itemName it) colItemWidth + 12)"

text \<open>The six cells of a row at height \<open>y\<close>, and the whole row: the background bar of
  an even index, then the cells.\<close>

definition row_texts :: "env \<Rightarrow> item \<Rightarrow> rat \<Rightarrow> rat \<Rightarrow> drawop list" where
  "row_texts e it y op =
     [Text (itemName it) colItem y (Some colItemWidth) (Some AlignLeft) (row_style op),
      Text (str_or_lit (i_size it) ''-'') colSize y (Some colSizeWidth) (Some AlignCenter) (row_style op),
      Text (str_or_lit (i_color it) ''-'') colColor y (Some colColorWidth) (Some AlignCenter) (row_style op),
      Text (num_toString (bigToString e) (quantity_of it)) colQty y (Some colQtyWidth) (Some AlignCenter) (row_style op),
      Text (rs e (money (i_price it))) colPrice y (Some colPriceWidth) (Some AlignRight) (row_style op),
      Text (rs e (jsmul (money (i_price it)) (quantity_of it))) colTotal y (Some colTotalWidth) (Some AlignRight) (row_style op)]"

definition row_ops :: "env \<Rightarrow> nat \<Rightarrow> item \<Rightarrow> rat \<Rightarrow> rat \<Rightarrow> rat \<Rightarrow> drawop list" where
  "row_ops e index it y h op =
     (if index mod 2 = 0 then [FillRect margin (y - 3) contentWidth h background] else [])
     @ row_texts e it y op"



text \<open>The strings drawn at column \<open>x\<close> in font size \<open>sz\<close>, in drawing order.\<close>

fun cell_at :: "rat \<Rightarrow> rat \<Rightarrow> drawop \<Rightarrow> string option" where
  "cell_at x sz (Text s x' y w a st) = (if x' = x \<and> st_size st = sz then Some s else None)"
| "cell_at x sz _ = None"

definition cells_at :: "rat \<Rightarrow> rat \<Rightarrow> drawop list \<Rightarrow> string list" where
  "cells_at x sz ops = List.map_filter (cell_at x sz) ops"

text \<open>The document as it stands before the table (the file-system effects do not
  change it), the state after the loop over the items, and the operations the loop
  drew.\<close>

definition billing_doc :: "env \<Rightarrow> order \<Rightarrow> user \<Rightarrow> doc" where
  "billing_doc e ord usr = customer_section ord usr (header_section e ord (snd (draw_logo e ([], new_PDFDocument))))"

definition items_loop :: "env \<Rightarrow> order \<Rightarrow> user \<Rightarrow> rat \<times> doc" where
  "items_loop e ord usr =
     forEach_items e (122, 80, 81) 0 (items_of (o_items ord)) (table_header (122, 80, 81) (billing_doc e ord usr))"

definition loop_ops :: "env \<Rightarrow> order \<Rightarrow> user \<Rightarrow> drawop list" where
  "loop_ops e ord usr =
     ops_since (snd (table_header (122, 80, 81) (billing_doc e ord usr))) (snd (items_loop e ord usr))"

text \<open>A string of the form \<^verbatim>\<open>-?digits.dd\<close>: at least one digit, a point, exactly two digits.\<close>

definition two_decimals :: "string \<Rightarrow> bool" where
  "two_decimals s =
     (let b = (if s \<noteq> [] \<and> hd s = CHR ''-'' then tl s else s);
          n = length b
      in 4 \<le> n \<and> list_all is_digit (take (n - 3) b) \<and> b ! (n - 3) = CHR ''.''
         \<and> is_digit (b ! (n - 2)) \<and> is_digit (b ! (n - 1)))"

subsection \<open>Example inputs\<close>

text \<open>A host whose invoices directory does not exist yet and that has no logo file. Its
  library functions are fixed on the few arguments the examples use: the clock reads
  1700000000000 (14 November 2023 in UTC), one line of 10 point Helvetica is 11.56 high.\<close>

definition ex_env :: env where
  "ex_env =
     \<lparr>invoicesDir = ''/srv/backend/uploads/invoices'',
      logoPaths = [''/srv/public/Logo.png'', ''/srv/Logo.png'', ''/srv/Logo.PNG''],
      existsSync = (\<lambda>p. False),
      mkdir_throws = False,
      image_throws = False,
      stream_error = False,
      date_now = 1700000000000,
      new_date = 1700000000000,
      parseDate = (\<lambda>s. if s = ''2024-01-15'' then Some 1705276800000 else None),
      fmtDate = (\<lambda>t. if t = 1705276800000 then ''15 January 2024'' else ''14 November 2023''),
      heightOfString = (\<lambda>st s w. st_size st * 1156 / 1000),
      bigToString = (\<lambda>q. ''1e+21'')\<rparr>"

definition ex_user :: user where
  "ex_user = \<lparr>u_name = Some ''Asha'', u_mobile = Some ''9876543210'', u_email = Some ''asha@example.com''\<rparr>"

definition ex_item :: item where
  "ex_item =
     \<lparr>i_name = Some ''Silk Saree'', i_product_name = None, i_size = Some ''M'', i_color = None,
      i_quantity = Some (Fin 2), i_price = JStr ''499.50'',
      i_other = [(''total'', JNum (Fin 1))]\<rparr>"

definition ex_order :: order where
  "ex_order =
     \<lparr>o_orderId = Some ''ORD-1001'',
      o_createdAt = Some (DateStr ''2024-01-15''),
      o_orderDate = None,
      o_date = None,
      o_items = ItemsArray [ex_item],
      o_subtotal = JStr ''999.00'',
      o_shippingCost = JNum (Fin 0),
      o_tax = JStr ''0.00'',
      o_total = JStr ''1234.56'',
      o_shippingAddress = None\<rparr>"

definition ex_account :: account where
  "ex_account =
     \<lparr>acc_id = 7, acc_email = ''asha@example.com'', acc_name = ''Asha'', acc_password = ''old-secret'',
      passwordResetToken = None, passwordResetExpires = None\<rparr>"

text \<open>A stand-in hash for the examples: any function will do, the theorems hold for all.\<close>

definition ex_auth_env :: auth_env where
  "ex_auth_env =
     \<lparr>clock = 1700000000000, randomToken = ''a1b2c3'', sha256 = (\<lambda>s. ''h('' @ s @ '')''),
      mail_throws = False, development = False\<rparr>"


text \<open>The example order with a price that is not a number.\<close>

definition ex_order_nan :: order where
  "ex_order_nan = ex_order\<lparr>o_items := ItemsArray [ex_item\<lparr>i_price := JStr ''abc''\<rparr>]\<rparr>"

text \<open>The example order with no items, and with a creation date that is not a date.\<close>

definition ex_order_empty :: order where
  "ex_order_empty = ex_order\<lparr>o_items := ItemsArray []\<rparr>"

definition ex_order_bad_date :: order where
  "ex_order_bad_date = ex_order\<lparr>o_createdAt := Some (DateStr ''not-a-date'')\<rparr>"

text \<open>The example host a moment after a first render: the invoices directory exists now. In
  \<open>ex_env_again\<close> the clock still shows the same millisecond, in \<open>ex_env_later\<close> the next one.\<close>

definition ex_env_again :: env where
  "ex_env_again = ex_env\<lparr>existsSync := (\<lambda>p. p = ''/srv/backend/uploads/invoices'')\<rparr>"

definition ex_env_later :: env where
  "ex_env_later = ex_env\<lparr>date_now := 1700000000001, new_date := 1700000000001,
     existsSync := (\<lambda>p. p = ''/srv/backend/uploads/invoices''), mkdir_throws := False, stream_error := False\<rparr>"

text \<open>A later request, and the users table once the example account has asked for a reset.\<close>

definition ex_auth_env_later :: auth_env where
  "ex_auth_env_later = ex_auth_env\<lparr>clock := 1700000001000, randomToken := ''ffff''\<rparr>"

definition ex_db_pending :: "account list" where
  "ex_db_pending =
     [ex_account\<lparr>passwordResetToken := Some ''h(a1b2c3)'', passwordResetExpires := Some 1700003600000\<rparr>]"

lemmas geometry_defs =
  pageWidth_def pageHeight_def margin_def contentWidth_def
  colItem_def colItemWidth_def colSize_def colSizeWidth_def colColor_def colColorWidth_def
  colQty_def colQtyWidth_def colPrice_def colPriceWidth_def colTotal_def colTotalWidth_def

section \<open>Auxiliary lemmas\<close>

subsection \<open>Evaluating numbers and drawing operations\<close>

lemma floor_rat_numeral_div [simp]: "\<lfloor>numeral a / numeral b :: rat\<rfloor> = numeral a div numeral b"
  by (metis floor_divide_of_int_eq of_int_numeral)

lemma show_nat_lt10: "n < 10 \<Longrightarrow> show_nat n = [digit_char n]"
  by (simp add: show_nat.simps)

lemma show_nat_ge10: "10 \<le> n \<Longrightarrow> show_nat n = show_nat (n div 10) @ [digit_char n]"
  by (subst show_nat.simps) simp

lemmas number_defs =
  money_def rs_def js_or_def parseFloat_str_def parse_unsigned_def jsneg_def is_space_def is_digit_def
  digit_val_def exponent_part_def pow10_def fixed2_def show_nat_lt10 show_nat_ge10 digit_char_def Let_def

lemmas doc_defs =
  draw_def fontSize_def set_font_def fillColor_def opacity_def doc_text_def fill_rect_def
  stroke_rect_def addPage_def doc_end_def

lemma all_ops_draw [simp]: "all_ops (draw x d) = all_ops d @ [x]"
  by (simp add: all_ops_def all_pages_def draw_def)

lemma all_ops_addPage [simp]: "all_ops (addPage d) = all_ops d"
  by (simp add: all_ops_def all_pages_def addPage_def)

lemma all_ops_style [simp]:
  "all_ops (fontSize n d) = all_ops d"
  "all_ops (set_font f d) = all_ops d"
  "all_ops (fillColor c d) = all_ops d"
  "all_ops (opacity a d) = all_ops d"
  "all_ops (doc_end d) = all_ops d"
  "all_ops (d\<lparr>d_y := y\<rparr>) = all_ops d"
  by (simp_all add: all_ops_def all_pages_def doc_defs)

lemma all_ops_doc_text [simp]:
  "all_ops (doc_text s x y w a d) = all_ops d @ [Text s x y w a (d_style d)]"
  by (simp add: doc_text_def)

lemma all_ops_fill_rect [simp]:
  "all_ops (fill_rect x y w h c d) = all_ops d @ [FillRect x y w h c]"
  by (simp add: fill_rect_def)

lemma d_style_simps [simp]:
  "d_style (fontSize n d) = (d_style d)\<lparr>st_size := n\<rparr>"
  "d_style (set_font f d) = (d_style d)\<lparr>st_font := f\<rparr>"
  "d_style (fillColor c d) = (d_style d)\<lparr>st_fill := c\<rparr>"
  "d_style (opacity a d) = (d_style d)\<lparr>st_opacity := a\<rparr>"
  "d_style (doc_text s x y w al d) = d_style d"
  "d_style (draw op d) = d_style d"
  "d_style (addPage d) = d_style d"
  "d_style (fill_rect x y w' h c d) = (d_style d)\<lparr>st_fill := c\<rparr>"
  by (simp_all add: doc_defs)

lemma ops_since_append: "all_ops d' = all_ops d @ xs \<Longrightarrow> ops_since d d' = xs"
  by (simp add: ops_since_def)

lemma all_ops_totals_line:
  "all_ops (totals_line label v y sz f c d) =
     all_ops d @
     [Text label (colTotal - 100 - 10) y (Some 100) (Some AlignRight)
        ((d_style d)\<lparr>st_size := sz, st_font := f, st_fill := c\<rparr>),
      Text v colTotal y (Some colTotalWidth) (Some AlignRight)
        ((d_style d)\<lparr>st_size := sz, st_font := f, st_fill := textPrimary\<rparr>)]"
  by (simp add: totals_line_def Let_def)

lemma d_style_totals_line:
  "d_style (totals_line label v y sz f c d) = (d_style d)\<lparr>st_size := sz, st_font := f, st_fill := textPrimary\<rparr>"
  by (simp add: totals_line_def Let_def)

lemma ops_since_totals_section:
  "ops_since d (totals_section e ord y d) =
    [Text ''Subtotal:'' (colTotal - 100 - 10) (y + 20) (Some 100) (Some AlignRight)
       ((d_style d)\<lparr>st_size := 10, st_font := Helvetica, st_fill := textSecondary\<rparr>),
     Text (rs e (money (o_subtotal ord))) colTotal (y + 20) (Some colTotalWidth) (Some AlignRight)
       ((d_style d)\<lparr>st_size := 10, st_font := Helvetica, st_fill := textPrimary\<rparr>)]
    @ (if js_gt0 (money (o_shippingCost ord)) then
        [Text ''Shipping:'' (colTotal - 100 - 10) (y + 20 + 20) (Some 100) (Some AlignRight)
           ((d_style d)\<lparr>st_size := 10, st_font := Helvetica, st_fill := textSecondary\<rparr>),
         Text (rs e (money (o_shippingCost ord))) colTotal (y + 20 + 20) (Some colTotalWidth) (Some AlignRight)
           ((d_style d)\<lparr>st_size := 10, st_font := Helvetica, st_fill := textPrimary\<rparr>)]
       else [])
    @ (if js_gt0 (money (o_tax ord)) then
        [Text ''Tax (GST):'' (colTotal - 100 - 10)
           (if js_gt0 (money (o_shippingCost ord)) then y + 20 + 20 + 20 else y + 20 + 20)
           (Some 100) (Some AlignRight)
           ((d_style d)\<lparr>st_size := 10, st_font := Helvetica, st_fill := textSecondary\<rparr>),
         Text (rs e (money (o_tax ord))) colTotal
           (if js_gt0 (money (o_shippingCost ord)) then y + 20 + 20 + 20 else y + 20 + 20)
           (Some colTotalWidth) (Some AlignRight)
           ((d_style d)\<lparr>st_size := 10, st_font := Helvetica, st_fill := textPrimary\<rparr>)]
       else [])
    @ [Text ''Total:'' (colTotal - 100 - 10)
         ((if js_gt0 (money (o_tax ord))
           then (if js_gt0 (money (o_shippingCost ord)) then y + 20 + 20 + 20 else y + 20 + 20) + 20
           else (if js_gt0 (money (o_shippingCost ord)) then y + 20 + 20 + 20 else y + 20 + 20)) + 8)
         (Some 100) (Some AlignRight)
         ((d_style d)\<lparr>st_size := 13, st_font := Helvetica_Bold, st_fill := primaryDark\<rparr>),
       Text (rs e (money (o_total ord))) colTotal
         ((if js_gt0 (money (o_tax ord))
           then (if js_gt0 (money (o_shippingCost ord)) then y + 20 + 20 + 20 else y + 20 + 20) + 20
           else (if js_gt0 (money (o_shippingCost ord)) then y + 20 + 20 + 20 else y + 20 + 20)) + 8)
         (Some colTotalWidth) (Some AlignRight)
         ((d_style d)\<lparr>st_size := 13, st_font := Helvetica_Bold, st_fill := textPrimary\<rparr>)]"
  by (simp add: ops_since_def totals_section_def Let_def all_ops_totals_line d_style_totals_line)

lemma render_success_shape:
  assumes "result (generateInvoicePDF e ord usr) = Inr r"
  shows "\<exists>d y. document (generateInvoicePDF e ord usr) = Some (footer_section (totals_section e ord y d))"
  using assms
  by (auto simp: generateInvoicePDF_def table_and_totals_def Let_def split: if_splits sum.splits option.splits)


lemma hexToRgb_primaryDark: "hexToRgb primaryDark = Some (122, 80, 81)"
  by (simp add: hexToRgb_def primaryDark_def is_hex_def hex_val_def is_digit_def)

lemma render_result_ok:
  assumes "existsSync e (invoicesDir e) \<or> \<not> mkdir_throws e"
    and "\<not> items_invalid (o_items ord)" and "\<not> stream_error e"
  shows "result (generateInvoicePDF e ord usr) = Inr (''/uploads/invoices/'' @ filename e ord)"
  using assms
  by (auto simp: generateInvoicePDF_def table_and_totals_def Let_def hexToRgb_primaryDark)

lemma ex_items_valid: "\<not> items_invalid (o_items ex_order)"
  by (simp add: items_invalid_def ex_order_def items_truthy_def isArray_def items_of_def)

lemma ex_render_result:
  "result (generateInvoicePDF ex_env ex_order ex_user) = Inr (''/uploads/invoices/'' @ filename ex_env ex_order)"
  by (rule render_result_ok) (simp_all add: ex_items_valid, simp_all add: ex_env_def)

lemma ex_money:
  "money (o_shippingCost ex_order) = Fin 0" "money (o_tax ex_order) = Fin 0"
  "rs ex_env (money (o_subtotal ex_order)) = ''Rs. 999.00''"
  "rs ex_env (money (o_total ex_order)) = ''Rs. 1234.56''"
  by (simp_all add: ex_order_def ex_env_def number_defs)


subsection \<open>The loop over the items\<close>

lemma style_updates:
  "s\<lparr>st_size := a, st_font := b, st_fill := c\<rparr> = \<lparr>st_size = a, st_font = b, st_fill = c, st_opacity = st_opacity s\<rparr>"
  by (cases s) simp

lemma str_or_lit_idem [simp]: "str_or_lit (Some (str_or_lit a d)) d = str_or_lit a d"
  by (simp add: str_or_lit_def split: option.splits)

lemma header_cells_page:
  "page (header_cells y d) = page d @ tl (header_row rgb r y (st_opacity (d_style d)))"
  "prev_pages (header_cells y d) = prev_pages d"
  "d_style (header_cells y d) = header_style (st_opacity (d_style d))"
  by (simp_all add: header_cells_def header_row_def header_style_def doc_defs style_updates)

lemma row_cells_page:
  "page (row_cells e it y d) = page d @ row_texts e it y (st_opacity (d_style d))"
  "prev_pages (row_cells e it y d) = prev_pages d"
  "d_style (row_cells e it y d) = row_style (st_opacity (d_style d))"
  by (simp_all add: row_cells_def row_texts_def row_style_def doc_defs style_updates Let_def)

lemma page_break_page:
  "page (snd (page_break rgb d)) = header_row rgb 50 58 (st_opacity (d_style d))"
  "prev_pages (snd (page_break rgb d)) = prev_pages d @ [page d]"
  "d_style (snd (page_break rgb d)) = header_style (st_opacity (d_style d))"
  "fst (page_break rgb d) = 104"
  by (simp_all add: page_break_def Let_def header_cells_page(1)[where rgb=rgb and r=50] header_cells_page(2,3)
        header_row_def fill_rect_def fillColor_def draw_def addPage_def margin_def headerRowHeight_def)


lemma item_step_break:
  assumes "y > pageHeight - 250"
  shows "prev_pages (snd (item_step e rgb (y, d) i it)) = prev_pages d @ [page d]"
    and "page (snd (item_step e rgb (y, d) i it)) =
           header_row rgb 50 58 (st_opacity (d_style d))
           @ row_ops e i it 104 (row_height e (header_style (st_opacity (d_style d))) it) (st_opacity (d_style d))"
    and "fst (item_step e rgb (y, d) i it) = 104 + row_height e (header_style (st_opacity (d_style d))) it"
    and "d_style (snd (item_step e rgb (y, d) i it)) = row_style (st_opacity (d_style d))"
  using assms
  by (simp_all add: item_step_def Let_def row_cells_page page_break_page row_ops_def row_height_def
        fill_rect_def fillColor_def draw_def header_style_def)

lemma item_step_stay:
  assumes "\<not> y > pageHeight - 250"
  shows "prev_pages (snd (item_step e rgb (y, d) i it)) = prev_pages d"
    and "page (snd (item_step e rgb (y, d) i it)) =
           page d @ row_ops e i it y (row_height e (d_style d) it) (st_opacity (d_style d))"
    and "fst (item_step e rgb (y, d) i it) = y + row_height e (d_style d) it"
    and "d_style (snd (item_step e rgb (y, d) i it)) = row_style (st_opacity (d_style d))"
  using assms
  by (simp_all add: item_step_def Let_def row_cells_page row_ops_def row_height_def
        fill_rect_def fillColor_def draw_def)

lemma item_step_opacity [simp]:
  "st_opacity (d_style (snd (item_step e rgb (y, d) i it))) = st_opacity (d_style d)"
  by (cases "y > pageHeight - 250") (simp_all add: item_step_break item_step_stay row_style_def)


lemma forEach_opacity [simp]:
  "st_opacity (d_style (snd (forEach_items e rgb i xs st))) = st_opacity (d_style (snd st))"
proof (induction xs arbitrary: i st)
  case Nil
  show ?case by simp
next
  case (Cons x xs)
  show ?case by (cases st) (simp add: Cons.IH)
qed















lemma all_ops_item_step:
  "\<exists>hdr y' h. all_ops (snd (item_step e rgb (y, d) i it)) =
      all_ops d @ hdr @ row_ops e i it y' h (st_opacity (d_style d))
    \<and> (hdr = [] \<or> hdr = header_row rgb 50 58 (st_opacity (d_style d)))"
proof (cases "y > pageHeight - 250")
  case True
  show ?thesis
    apply (rule exI[of _ "header_row rgb 50 58 (st_opacity (d_style d))"])
    apply (rule exI[of _ 104])
    apply (rule exI[of _ "row_height e (header_style (st_opacity (d_style d))) it"])
    by (simp add: all_ops_def all_pages_def item_step_break[OF True])
next
  case False
  show ?thesis
    apply (rule exI[of _ "[]"])
    apply (rule exI[of _ y])
    apply (rule exI[of _ "row_height e (d_style d) it"])
    by (simp add: all_ops_def all_pages_def item_step_stay[OF False])
qed

lemma cells_at_append [simp]: "cells_at x sz (a @ b) = cells_at x sz a @ cells_at x sz b"
  by (simp add: cells_at_def map_filter_def)

lemma cells_at_Nil [simp]: "cells_at x sz [] = []"
  by (simp add: cells_at_def map_filter_simps)

lemma cells_at_header_row [simp]: "cells_at x 10 (header_row rgb r t op) = []"
  by (simp add: cells_at_def header_row_def header_style_def map_filter_simps)

lemma cells_at_row_ops:
  "cells_at colItem 10 (row_ops e i it y h op) = [itemName it]"
  "cells_at colPrice 10 (row_ops e i it y h op) = [rs e (money (i_price it))]"
  "cells_at colTotal 10 (row_ops e i it y h op) = [rs e (jsmul (money (i_price it)) (quantity_of it))]"
  by (simp_all add: cells_at_def row_ops_def row_texts_def row_style_def map_filter_simps geometry_defs)

lemma forEach_cells:
  assumes "\<And>i it y h op. cells_at x 10 (row_ops e i it y h op) = [f it]"
  shows "\<exists>new. all_ops (snd (forEach_items e rgb i xs st)) = all_ops (snd st) @ new
           \<and> cells_at x 10 new = map f xs"
proof (induction xs arbitrary: i st)
  case Nil
  show ?case by simp
next
  case (Cons a xs)
  obtain y d where st: "st = (y, d)" by (cases st)
  obtain hdr y' h where
    1: "all_ops (snd (item_step e rgb (y, d) i a)) = all_ops d @ hdr @ row_ops e i a y' h (st_opacity (d_style d))"
    and 2: "hdr = [] \<or> hdr = header_row rgb 50 58 (st_opacity (d_style d))"
    using all_ops_item_step[of e rgb y d i a] by blast
  obtain new where
    3: "all_ops (snd (forEach_items e rgb (Suc i) xs (item_step e rgb (y, d) i a)))
          = all_ops (snd (item_step e rgb (y, d) i a)) @ new"
    and 4: "cells_at x 10 new = map f xs"
    using Cons.IH[of "Suc i" "item_step e rgb (y, d) i a"] by blast
  have "cells_at x 10 (hdr @ row_ops e i a y' h (st_opacity (d_style d)) @ new) = map f (a # xs)"
    using 2 4 assms by auto
  then show ?case
    by (intro exI[of _ "hdr @ row_ops e i a y' h (st_opacity (d_style d)) @ new"]) (simp add: st 1 3)
qed

lemma forEach_cells_since:
  assumes "\<And>i it y h op. cells_at x 10 (row_ops e i it y h op) = [f it]"
  shows "cells_at x 10 (ops_since (snd st) (snd (forEach_items e rgb i xs st))) = map f xs"
  using forEach_cells[OF assms, of rgb i xs st] by (auto simp: ops_since_def)

lemma snd_draw_logo: "NO_MATCH ([] :: effect list) fx \<Longrightarrow> snd (draw_logo e (fx, d)) = snd (draw_logo e ([], d))"
  by (simp add: draw_logo_def Let_def split: option.splits)

lemma draw_logo_doc:
  "prev_pages (snd (draw_logo e (fx, new_PDFDocument))) = []"
  "st_opacity (d_style (snd (draw_logo e (fx, new_PDFDocument)))) = 1"
  by (simp_all add: draw_logo_def Let_def new_PDFDocument_def draw_def split: option.splits)

lemma header_section_doc:
  "prev_pages (header_section e ord d) = prev_pages d"
  "st_opacity (d_style (header_section e ord d)) = st_opacity (d_style d)"
  by (simp_all add: header_section_def Let_def doc_defs)

lemma bill_line_doc:
  "prev_pages (snd (bill_line l s st)) = prev_pages (snd st)"
  "st_opacity (d_style (snd (bill_line l s st))) = st_opacity (d_style (snd st))"
  by (cases st, simp add: bill_line_def doc_defs)+

lemma customer_section_doc:
  "prev_pages (customer_section ord usr d) = prev_pages d"
  "st_opacity (d_style (customer_section ord usr d)) = st_opacity (d_style d)"
  "d_y (customer_section ord usr d) = 325"
  by (simp_all add: customer_section_def Let_def bill_line_doc doc_defs billToBoxY_def billToBoxHeight_def
        invoiceInfoY_def invoiceTitleY_def margin_def split: option.splits)

lemma billing_doc_facts:
  "prev_pages (billing_doc e ord usr) = []"
  "st_opacity (d_style (billing_doc e ord usr)) = 1"
  "d_y (billing_doc e ord usr) = 325"
  by (simp_all add: billing_doc_def customer_section_doc header_section_doc draw_logo_doc)

lemma table_header_doc:
  "prev_pages (snd (table_header rgb d)) = prev_pages d"
  "st_opacity (d_style (snd (table_header rgb d))) = st_opacity (d_style d)"
  "fst (table_header rgb d) = d_y d + 44"
  "page (snd (table_header rgb d)) = page d @ header_row rgb (d_y d) (d_y d + 10) (st_opacity (d_style d))"
  by (simp_all add: table_header_def Let_def header_cells_page(1)[where rgb=rgb and r="d_y d"] header_cells_page(2,3)
        header_row_def header_style_def doc_defs headerRowHeight_def)

lemma totals_line_doc:
  "prev_pages (totals_line l v y sz f c d) = prev_pages d"
  "\<exists>xs. page (totals_line l v y sz f c d) = page d @ xs"
  by (simp_all add: totals_line_def Let_def doc_defs)

lemma totals_footer_doc:
  "prev_pages (footer_section (totals_section e ord y d)) = prev_pages d"
  "\<exists>xs. page (footer_section (totals_section e ord y d)) = page d @ xs"
  by (simp_all add: footer_section_def totals_section_def totals_line_def Let_def doc_defs)

lemma render_success_doc:
  assumes "result (generateInvoicePDF e ord usr) = Inr r"
  shows "document (generateInvoicePDF e ord usr)
           = Some (footer_section (totals_section e ord (fst (items_loop e ord usr)) (snd (items_loop e ord usr))))"
  using assms
  by (auto simp: generateInvoicePDF_def table_and_totals_def Let_def items_loop_def billing_doc_def
        hexToRgb_primaryDark snd_draw_logo split: if_splits)


lemma loop_ops_cells:
  assumes "\<And>i it y h op. cells_at x 10 (row_ops e i it y h op) = [f it]"
  shows "cells_at x 10 (loop_ops e ord usr) = map f (items_of (o_items ord))"
  unfolding loop_ops_def items_loop_def by (rule forEach_cells_since[OF assms])






lemma forEach_all_ops:
  "\<exists>new. all_ops (snd (forEach_items e rgb i xs st)) = all_ops (snd st) @ new"
  using forEach_cells[of colItem e itemName rgb i xs st] cells_at_row_ops(1) by blast

lemma all_ops_totals_footer:
  "\<exists>xs. all_ops (footer_section (totals_section e ord y d)) = all_ops d @ xs"
  using totals_footer_doc(2)[of e ord y d]
  by (auto simp: all_ops_def all_pages_def totals_footer_doc(1))

lemma render_doc_ops:
  assumes "result (generateInvoicePDF e ord usr) = Inr r"
  shows "\<exists>dfin pre post. document (generateInvoicePDF e ord usr) = Some dfin
           \<and> all_ops dfin = pre @ loop_ops e ord usr @ post"
proof -
  let ?t = "table_header (122, 80, 81) (billing_doc e ord usr)"
  let ?dfin = "footer_section (totals_section e ord (fst (items_loop e ord usr)) (snd (items_loop e ord usr)))"
  obtain new where n: "all_ops (snd (items_loop e ord usr)) = all_ops (snd ?t) @ new"
    unfolding items_loop_def using forEach_all_ops by blast
  then have l: "loop_ops e ord usr = new" by (simp add: loop_ops_def ops_since_def)
  obtain post where "all_ops ?dfin = all_ops (snd (items_loop e ord usr)) @ post"
    using all_ops_totals_footer by blast
  with n l have "all_ops ?dfin = all_ops (snd ?t) @ loop_ops e ord usr @ post" by simp
  with render_success_doc[OF assms] show ?thesis by blast
qed

lemma item_step_other [simp]: "item_step e rgb st i (it\<lparr>i_other := x\<rparr>) = item_step e rgb st i it"
  by (simp add: item_step_def row_cells_def itemName_def quantity_of_def)

lemma forEach_items_other:
  "forEach_items e rgb i (map (\<lambda>it. it\<lparr>i_other := g it\<rparr>) xs) st = forEach_items e rgb i xs st"
  by (induction xs arbitrary: i st) simp_all


subsection \<open>The format of an amount\<close>

lemma is_digit_digit_char: "is_digit (digit_char n)"
proof -
  have "n mod 10 < length ''0123456789''" by simp
  then have "''0123456789'' ! (n mod 10) \<in> set ''0123456789''" by (rule nth_mem)
  then show ?thesis by (simp only: is_digit_def digit_char_def)
qed

lemma show_nat_digits: "list_all is_digit (show_nat n) \<and> show_nat n \<noteq> []"
proof (induction n rule: show_nat.induct)
  case (1 n)
  show ?case
  proof (cases "n < 10")
    case True
    then show ?thesis by (simp add: show_nat_lt10 is_digit_digit_char)
  next
    case False
    then have "10 \<le> n" by simp
    with 1 False show ?thesis by (simp add: show_nat_ge10 is_digit_digit_char)
  qed
qed

lemma two_decimals_digits:
  assumes "list_all is_digit m" "3 \<le> length m" and sg: "sg = [] \<or> sg = ''-''"
  shows "two_decimals (sg @ take (length m - 2) m @ ''.'' @ drop (length m - 2) m)"
proof -
  define pre where "pre = take (length m - 2) m"
  obtain a b where ab: "drop (length m - 2) m = [a, b]"
  proof -
    have "length (drop (length m - 2) m) = 2" using assms(2) by simp
    then obtain a b where "drop (length m - 2) m = [a, b]"
      by (metis (no_types, opaque_lifting) One_nat_def Suc_1 length_0_conv length_Suc_conv)
    then show ?thesis by (rule that)
  qed
  have m: "m = pre @ [a, b]" unfolding pre_def by (metis ab append_take_drop_id)
  have pre: "pre \<noteq> []" using assms(2) by (auto simp: pre_def)
  then obtain c cs where c: "pre = c # cs" by (cases pre) auto
  have dig: "list_all is_digit pre" "is_digit a" "is_digit b" "is_digit c"
    using assms(1) by (simp_all add: m c)
  have nm: "c \<noteq> CHR ''-''" using dig(4) by (auto simp: is_digit_def)
  have body: "two_decimals (pre @ ''.'' @ [a, b])"
    using dig nm by (simp add: two_decimals_def Let_def c nth_append)
  have neg: "two_decimals (''-'' @ pre @ ''.'' @ [a, b])"
    using dig by (simp add: two_decimals_def Let_def c nth_append)
  from sg body neg show ?thesis by (auto simp: pre_def[symmetric] ab)
qed

lemma two_decimals_fixed2: "sg = [] \<or> sg = ''-'' \<Longrightarrow> two_decimals (sg @ fixed2 n)"
proof -
  assume sg: "sg = [] \<or> sg = ''-''"
  let ?m = "replicate (3 - length (show_nat n)) CHR ''0'' @ show_nat n"
  have z: "is_digit CHR ''0''" by (simp add: is_digit_def)
  have 1: "list_all is_digit ?m" using show_nat_digits[of n] z by (auto simp: list_all_iff)
  have 2: "3 \<le> length ?m" by simp
  from two_decimals_digits[OF 1 2 sg] show ?thesis by (simp add: fixed2_def Let_def)
qed

lemma two_decimals_toFixed2:
  "\<bar>x\<bar> < 10 ^ 21 \<Longrightarrow> two_decimals (toFixed2 big (Fin x))"
  by (simp add: two_decimals_fixed2)

lemma money_falsy: "\<not> truthy v \<Longrightarrow> rs e (money v) = ''Rs. 0.00''"
  by (simp add: number_defs)


lemma exnan_render_result:
  "result (generateInvoicePDF ex_env ex_order_nan ex_user) = Inr (''/uploads/invoices/'' @ filename ex_env ex_order_nan)"
  by (rule render_result_ok)
     (simp_all add: items_invalid_def ex_order_nan_def items_truthy_def isArray_def items_of_def, simp_all add: ex_env_def)


subsection \<open>The header, the billing block and a rejected render\<close>

lemma items_invalid_cases:
  "items_invalid f \<longleftrightarrow> f = ItemsMissing \<or> (\<exists>v. f = ItemsScalar v) \<or> f = ItemsArray []"
  by (cases f) (auto simp: items_invalid_def items_truthy_def isArray_def items_of_def)

lemma render_invalid_items:
  assumes "items_invalid (o_items ord)" and "existsSync e (invoicesDir e) \<or> \<not> mkdir_throws e"
  shows "result (generateInvoicePDF e ord usr) = Inl InvalidItems"
    and "document (generateInvoicePDF e ord usr) = Some (billing_doc e ord usr)"
    and "effects (generateInvoicePDF e ord usr) =
          fst (draw_logo e ((if existsSync e (invoicesDir e) then [] else [MkdirSync (invoicesDir e)])
                             @ [CreateWriteStream (filepath e ord) ''w''], new_PDFDocument))"
  using assms
  by (auto simp: generateInvoicePDF_def table_and_totals_def Let_def billing_doc_def snd_draw_logo)

lemma fst_draw_logo: "\<exists>lg. fst (draw_logo e (fx, d)) = fx @ lg"
  by (simp add: draw_logo_def Let_def split: option.splits)

lemma all_ops_header_section:
  "all_ops (header_section e ord d) = all_ops d @
     [Text ''INVOICE'' margin invoiceTitleY (Some contentWidth) (Some AlignCenter)
        \<lparr>st_size = 36, st_font = Helvetica_Bold, st_fill = primaryDark, st_opacity = st_opacity (d_style d)\<rparr>,
      Text ''Invoice No:'' margin invoiceInfoY (Some contentWidth) (Some AlignCenter)
        \<lparr>st_size = 10, st_font = Helvetica, st_fill = textSecondary, st_opacity = st_opacity (d_style d)\<rparr>,
      Text (str_or_lit (o_orderId ord) ''N/A'') margin (invoiceInfoY + 15) (Some contentWidth) (Some AlignCenter)
        \<lparr>st_size = 12, st_font = Helvetica_Bold, st_fill = textPrimary, st_opacity = st_opacity (d_style d)\<rparr>,
      Text ''Date:'' margin (invoiceInfoY + 35) (Some contentWidth) (Some AlignCenter)
        \<lparr>st_size = 10, st_font = Helvetica, st_fill = textSecondary, st_opacity = st_opacity (d_style d)\<rparr>,
      Text (invoiceDate e ord) margin (invoiceInfoY + 50) (Some contentWidth) (Some AlignCenter)
        \<lparr>st_size = 12, st_font = Helvetica_Bold, st_fill = textPrimary, st_opacity = st_opacity (d_style d)\<rparr>]"
  by (simp add: header_section_def Let_def style_updates)

lemma all_ops_bill_line: "\<exists>xs. all_ops (snd (bill_line l s st)) = all_ops (snd st) @ xs"
  by (cases st) (simp add: bill_line_def)

lemma all_ops_stroke_rect [simp]:
  "all_ops (stroke_rect x y w h c lw d) = all_ops d @ [StrokeRect x y w h c lw]"
  by (simp add: stroke_rect_def all_ops_def all_pages_def draw_def)

lemma d_style_stroke_rect [simp]: "d_style (stroke_rect x y w h c lw d) = d_style d"
  by (simp add: stroke_rect_def draw_def)

lemma all_ops_customer_section:
  "\<exists>rest. all_ops (customer_section ord usr d) = all_ops d @
     [FillRect margin billToBoxY 280 billToBoxHeight background,
      StrokeRect margin billToBoxY 280 billToBoxHeight primaryLight (3 / 2),
      Text ''Bill To:'' (margin + 10) (billToBoxY + 10) None None
        \<lparr>st_size = 12, st_font = Helvetica_Bold, st_fill = primaryDark, st_opacity = st_opacity (d_style d)\<rparr>]
     @ rest"
proof -
  define d3 where "d3 = doc_text ''Bill To:'' (margin + 10) (billToBoxY + 10) None None
       (fillColor primaryDark (set_font Helvetica_Bold (fontSize 12
         (stroke_rect margin billToBoxY 280 billToBoxHeight primaryLight (3 / 2)
           (fill_rect margin billToBoxY 280 billToBoxHeight background d)))))"
  have 3: "all_ops d3 = all_ops d @
     [FillRect margin billToBoxY 280 billToBoxHeight background,
      StrokeRect margin billToBoxY 280 billToBoxHeight primaryLight (3 / 2),
      Text ''Bill To:'' (margin + 10) (billToBoxY + 10) None None
        \<lparr>st_size = 12, st_font = Helvetica_Bold, st_fill = primaryDark, st_opacity = st_opacity (d_style d)\<rparr>]"
    by (simp add: d3_def style_updates)
  have step: "\<exists>xs. all_ops (snd (bill_line l s st)) = all_ops d3 @ xs"
    if "\<exists>xs. all_ops (snd st) = all_ops d3 @ xs" for l s st
    using that all_ops_bill_line[of l s st] by auto
  have "\<exists>xs. all_ops (customer_section ord usr d) = all_ops d3 @ xs"
    unfolding customer_section_def Let_def d3_def[symmetric]
    by (cases "o_shippingAddress ord") (auto intro!: step)
  then show ?thesis by (auto simp: 3)
qed

lemma billing_doc_drawn:
  "\<exists>pre mid post. all_ops (billing_doc e ord usr) =
      pre @ [Text ''INVOICE'' margin invoiceTitleY (Some contentWidth) (Some AlignCenter)
               \<lparr>st_size = 36, st_font = Helvetica_Bold, st_fill = primaryDark, st_opacity = 1\<rparr>]
      @ mid @ [Text ''Bill To:'' (margin + 10) (billToBoxY + 10) None None
               \<lparr>st_size = 12, st_font = Helvetica_Bold, st_fill = primaryDark, st_opacity = 1\<rparr>]
      @ post"
proof -
  let ?d0 = "snd (draw_logo e ([], new_PDFDocument))"
  obtain rest where r: "all_ops (billing_doc e ord usr) = all_ops (header_section e ord ?d0) @
     [FillRect margin billToBoxY 280 billToBoxHeight background,
      StrokeRect margin billToBoxY 280 billToBoxHeight primaryLight (3 / 2),
      Text ''Bill To:'' (margin + 10) (billToBoxY + 10) None None
        \<lparr>st_size = 12, st_font = Helvetica_Bold, st_fill = primaryDark, st_opacity = 1\<rparr>]
     @ rest"
    unfolding billing_doc_def
    using all_ops_customer_section[of ord usr "header_section e ord ?d0"]
    by (auto simp: header_section_doc draw_logo_doc)
  show ?thesis
    apply (rule exI[of _ "all_ops ?d0"])
    apply (rule exI[of _ "[Text ''Invoice No:'' margin invoiceInfoY (Some contentWidth) (Some AlignCenter)
        \<lparr>st_size = 10, st_font = Helvetica, st_fill = textSecondary, st_opacity = 1\<rparr>,
      Text (str_or_lit (o_orderId ord) ''N/A'') margin (invoiceInfoY + 15) (Some contentWidth) (Some AlignCenter)
        \<lparr>st_size = 12, st_font = Helvetica_Bold, st_fill = textPrimary, st_opacity = 1\<rparr>,
      Text ''Date:'' margin (invoiceInfoY + 35) (Some contentWidth) (Some AlignCenter)
        \<lparr>st_size = 10, st_font = Helvetica, st_fill = textSecondary, st_opacity = 1\<rparr>,
      Text (invoiceDate e ord) margin (invoiceInfoY + 50) (Some contentWidth) (Some AlignCenter)
        \<lparr>st_size = 12, st_font = Helvetica_Bold, st_fill = textPrimary, st_opacity = 1\<rparr>,
      FillRect margin billToBoxY 280 billToBoxHeight background,
      StrokeRect margin billToBoxY 280 billToBoxHeight primaryLight (3 / 2)]"])
    apply (rule exI[of _ rest])
    by (simp add: r all_ops_header_section draw_logo_doc)
qed

lemma ex_empty_invalid: "items_invalid (o_items ex_order_empty)"
  by (simp add: ex_order_empty_def items_invalid_def items_truthy_def isArray_def items_of_def)

lemma ex_env_mkdir: "existsSync ex_env (invoicesDir ex_env) \<or> \<not> mkdir_throws ex_env"
  by (simp add: ex_env_def)

lemma ex_filename: "filename ex_env ex_order = ''invoice-ORD-1001-1700000000000.pdf''"
  by (simp add: filename_def template_str_def ex_order_def ex_env_def number_defs)

lemma ended_draw_logo: "ended (snd (draw_logo e (fx, new_PDFDocument))) = False"
  by (simp add: draw_logo_def Let_def new_PDFDocument_def draw_def split: option.splits)

lemma ended_header_section: "ended (header_section e ord d) = ended d"
  by (simp add: header_section_def Let_def doc_defs)

lemma ended_bill_line: "ended (snd (bill_line l s st)) = ended (snd st)"
  by (cases st) (simp add: bill_line_def doc_defs)

lemma ended_customer_section: "ended (customer_section ord usr d) = ended d"
  by (simp add: customer_section_def Let_def ended_bill_line doc_defs split: option.splits)

lemma ex_logoPath: "logoPath ex_env = None"
  by (simp add: logoPath_def ex_env_def)

lemma ex_draw_logo: "draw_logo ex_env (fx, d) = (fx, d)"
  by (simp add: draw_logo_def ex_logoPath)

lemmas invoiceDate_defs =
  invoiceDate_def toLocaleDateString_def new_Date_def dateValue_def date_or_def date_truthy_def

lemma ex_empty_invoiceDate: "invoiceDate ex_env ex_order_empty = ''15 January 2024''"
  by (simp add: invoiceDate_defs ex_order_def ex_order_empty_def ex_env_def)

lemma ex_missing_invoiceDate: "invoiceDate ex_env (ex_order\<lparr>o_createdAt := None\<rparr>) = ''14 November 2023''"
  by (simp add: invoiceDate_defs ex_order_def ex_env_def)

lemma all_ops_new_PDFDocument: "all_ops new_PDFDocument = []"
  by (simp add: all_ops_def all_pages_def new_PDFDocument_def)

lemma ex_billing_texts:
  assumes "o_orderId ord = Some ''ORD-1001''" "o_shippingAddress ord = None"
  shows "map text_of (all_ops (billing_doc ex_env ord ex_user)) =
     [''INVOICE'', ''Invoice No:'', ''ORD-1001'', ''Date:'', invoiceDate ex_env ord, [], [],
      ''Bill To:'', ''Asha'', ''Mobile: 9876543210'', ''Email: asha@example.com'']"
  by (simp add: billing_doc_def ex_draw_logo all_ops_header_section customer_section_def Let_def bill_line_def
        assms ex_user_def str_or_def str_or_lit_def str_truthy_def addr_field_def all_ops_new_PDFDocument)

lemma render_doc_prefix:
  assumes "result (generateInvoicePDF e ord usr) = Inr r"
  shows "\<exists>dfin rest. document (generateInvoicePDF e ord usr) = Some dfin
           \<and> all_ops dfin = all_ops (billing_doc e ord usr) @ rest"
proof -
  let ?t = "table_header (122, 80, 81) (billing_doc e ord usr)"
  let ?dfin = "footer_section (totals_section e ord (fst (items_loop e ord usr)) (snd (items_loop e ord usr)))"
  have t: "all_ops (snd ?t) = all_ops (billing_doc e ord usr)
      @ header_row (122, 80, 81) (d_y (billing_doc e ord usr)) (d_y (billing_doc e ord usr) + 10)
          (st_opacity (d_style (billing_doc e ord usr)))"
    by (simp add: all_ops_def all_pages_def table_header_doc)
  obtain new where n: "all_ops (snd (items_loop e ord usr)) = all_ops (snd ?t) @ new"
    unfolding items_loop_def using forEach_all_ops by blast
  obtain post where p: "all_ops ?dfin = all_ops (snd (items_loop e ord usr)) @ post"
    using all_ops_totals_footer by blast
  have "all_ops ?dfin = all_ops (billing_doc e ord usr)
      @ (header_row (122, 80, 81) (d_y (billing_doc e ord usr)) (d_y (billing_doc e ord usr) + 10)
          (st_opacity (d_style (billing_doc e ord usr))) @ new @ post)"
    by (simp add: p n t)
  with render_success_doc[OF assms] show ?thesis by blast
qed

lemma invoiceDate_invalid_string:
  assumes "o_createdAt ord = Some (DateStr s)" "s \<noteq> []" "parseDate e s = None"
  shows "invoiceDate e ord = ''Invalid Date''"
  using assms
  by (simp add: invoiceDate_def toLocaleDateString_def new_Date_def dateValue_def date_or_def date_truthy_def)

lemma ex_bad_date_result:
  "result (generateInvoicePDF ex_env ex_order_bad_date ex_user)
     = Inr (''/uploads/invoices/'' @ filename ex_env ex_order_bad_date)"
  by (rule render_result_ok)
     (simp_all add: items_invalid_def ex_order_bad_date_def ex_order_def items_truthy_def isArray_def items_of_def,
      simp_all add: ex_env_def)

subsection \<open>File names and two runs of a render\<close>

lemma digit_char_inj: "digit_char a = digit_char b \<Longrightarrow> a mod 10 = b mod 10"
proof -
  assume eq: "digit_char a = digit_char b"
  have d: "distinct ''0123456789''" by simp
  have la: "a mod 10 < length ''0123456789''" and lb: "b mod 10 < length ''0123456789''" by simp_all
  from eq have "''0123456789'' ! (a mod 10) = ''0123456789'' ! (b mod 10)" by (simp only: digit_char_def)
  with d la lb show ?thesis by (simp only: nth_eq_iff_index_eq)
qed

lemma show_nat_inj: "show_nat a = show_nat b \<Longrightarrow> a = b"
proof (induction a arbitrary: b rule: show_nat.induct)
  case (1 a)
  show ?case
  proof (cases "a < 10")
    case True
    show ?thesis
    proof (cases "b < 10")
      case T2: True
      from 1(2) True T2 have "digit_char a = digit_char b" by (simp add: show_nat_lt10)
      then have "a mod 10 = b mod 10" by (rule digit_char_inj)
      with True T2 show ?thesis by simp
    next
      case False
      then have "10 \<le> b" by simp
      with 1(2) True show ?thesis using show_nat_digits[of "b div 10"] by (simp add: show_nat_lt10 show_nat_ge10)
    qed
  next
    case False
    then have ga: "10 \<le> a" by simp
    show ?thesis
    proof (cases "b < 10")
      case True
      with 1(2) ga show ?thesis using show_nat_digits[of "a div 10"] by (simp add: show_nat_lt10 show_nat_ge10)
    next
      case F2: False
      then have gb: "10 \<le> b" by simp
      from 1(2) ga gb have "show_nat (a div 10) = show_nat (b div 10)" and "digit_char a = digit_char b"
        by (simp_all add: show_nat_ge10)
      then have "a div 10 = b div 10" and "a mod 10 = b mod 10"
        using 1(1)[OF False] digit_char_inj by blast+
      then show ?thesis by (metis div_mult_mod_eq)
    qed
  qed
qed

lemma filename_eq_iff:
  "filename e1 ord = filename e2 ord \<longleftrightarrow> date_now e1 = date_now e2"
proof
  assume "filename e1 ord = filename e2 ord"
  then have "show_nat (date_now e1) @ ''.pdf'' = show_nat (date_now e2) @ ''.pdf''"
    by (simp add: filename_def)
  then have "show_nat (date_now e1) = show_nat (date_now e2)"
    by (simp only: append_same_eq)
  then show "date_now e1 = date_now e2" by (rule show_nat_inj)
next
  assume "date_now e1 = date_now e2"
  then show "filename e1 ord = filename e2 ord" by (simp add: filename_def)
qed

lemma render_success_mkdir:
  "result (generateInvoicePDF e ord usr) = Inr r \<Longrightarrow> existsSync e (invoicesDir e) \<or> \<not> mkdir_throws e"
  by (auto simp: generateInvoicePDF_def)

lemma render_effects:
  assumes "existsSync e (invoicesDir e) \<or> \<not> mkdir_throws e"
  shows "effects (generateInvoicePDF e ord usr) =
          fst (draw_logo e ((if existsSync e (invoicesDir e) then [] else [MkdirSync (invoicesDir e)])
                             @ [CreateWriteStream (filepath e ord) ''w''], new_PDFDocument))"
  using assms
  by (auto simp: generateInvoicePDF_def Let_def split: sum.splits)

lemma render_success_effects:
  assumes "result (generateInvoicePDF e ord usr) = Inr r"
  shows "r = ''/uploads/invoices/'' @ filename e ord"
    and "CreateWriteStream (invoicesDir e @ ''/'' @ filename e ord) ''w'' \<in> set (effects (generateInvoicePDF e ord usr))"
proof -
  show "r = ''/uploads/invoices/'' @ filename e ord"
    using assms by (auto simp: generateInvoicePDF_def Let_def split: if_splits sum.splits)
  obtain lg where "effects (generateInvoicePDF e ord usr) =
      ((if existsSync e (invoicesDir e) then [] else [MkdirSync (invoicesDir e)])
        @ [CreateWriteStream (filepath e ord) ''w'']) @ lg"
    using fst_draw_logo render_effects[OF render_success_mkdir[OF assms]] by metis
  then show "CreateWriteStream (invoicesDir e @ ''/'' @ filename e ord) ''w'' \<in> set (effects (generateInvoicePDF e ord usr))"
    by (simp add: filepath_def)
qed

lemma item_step_env:
  assumes "bigToString e' = bigToString e" "heightOfString e' = heightOfString e"
  shows "item_step e' rgb st i it = item_step e rgb st i it"
  by (simp add: item_step_def row_cells_def rs_def assms)

lemma forEach_items_env:
  assumes "bigToString e' = bigToString e" "heightOfString e' = heightOfString e"
  shows "forEach_items e' rgb i xs st = forEach_items e rgb i xs st"
  by (induction xs arbitrary: i st) (simp_all add: item_step_env[OF assms])

lemma totals_section_env:
  assumes "bigToString e' = bigToString e"
  shows "totals_section e' ord y d = totals_section e ord y d"
proof -
  have "rs e' = rs e" by (simp add: fun_eq_iff rs_def assms)
  then show ?thesis by (simp only: totals_section_def)
qed

lemma invoiceDate_env:
  assumes "parseDate e' = parseDate e" "fmtDate e' = fmtDate e" "fmtDate e (new_date e') = fmtDate e (new_date e)"
  shows "invoiceDate e' ord = invoiceDate e ord"
  using assms
  by (auto simp: invoiceDate_def toLocaleDateString_def new_Date_def dateValue_def date_or_def
        split: option.splits dateval.splits)

lemma header_section_env:
  assumes "parseDate e' = parseDate e" "fmtDate e' = fmtDate e" "fmtDate e (new_date e') = fmtDate e (new_date e)"
  shows "header_section e' ord d = header_section e ord d"
  by (simp add: header_section_def invoiceDate_env[OF assms])

lemma logoPath_env:
  assumes "logoPaths e' = logoPaths e" "list_all (\<lambda>p. existsSync e' p = existsSync e p) (logoPaths e)"
  shows "logoPath e' = logoPath e"
  unfolding logoPath_def assms(1)
  using assms(2) by (intro find_cong) (auto simp: list_all_iff)

lemma draw_logo_env:
  assumes "logoPaths e' = logoPaths e" "list_all (\<lambda>p. existsSync e' p = existsSync e p) (logoPaths e)"
    "image_throws e' = image_throws e"
  shows "snd (draw_logo e' (fx', d)) = snd (draw_logo e (fx, d))"
proof (cases "logoPath e")
  case None
  then show ?thesis by (simp add: draw_logo_def logoPath_env[OF assms(1,2)])
next
  case (Some lp)
  then have "lp \<in> set (logoPaths e)" by (auto simp: logoPath_def find_Some_iff)
  then have "existsSync e' lp = existsSync e lp" using assms(2) by (simp add: list_all_iff)
  then show ?thesis by (simp add: draw_logo_def logoPath_env[OF assms(1,2)] Some assms(3) Let_def)
qed

lemma render_doc_env:
  assumes ok: "result (generateInvoicePDF e ord usr) = Inr r" "result (generateInvoicePDF e' ord usr) = Inr r'"
    and "logoPaths e' = logoPaths e" "list_all (\<lambda>p. existsSync e' p = existsSync e p) (logoPaths e)"
    "image_throws e' = image_throws e"
    and "parseDate e' = parseDate e" "fmtDate e' = fmtDate e" "fmtDate e (new_date e') = fmtDate e (new_date e)"
    and "bigToString e' = bigToString e" "heightOfString e' = heightOfString e"
  shows "document (generateInvoicePDF e' ord usr) = document (generateInvoicePDF e ord usr)"
proof -
  have b: "billing_doc e' ord usr = billing_doc e ord usr"
    unfolding billing_doc_def
    by (simp only: draw_logo_env[OF assms(3,4,5), of "[]" new_PDFDocument "[]"] header_section_env[OF assms(6,7,8)])
  have l: "items_loop e' ord usr = items_loop e ord usr"
    unfolding items_loop_def by (simp only: b forEach_items_env[OF assms(9,10)])
  show ?thesis
    by (simp only: render_success_doc[OF ok(1)] render_success_doc[OF ok(2)] l totals_section_env[OF assms(9)])
qed

lemma ex_later_result:
  "result (generateInvoicePDF ex_env_later ex_order ex_user) = Inr (''/uploads/invoices/'' @ filename ex_env_later ex_order)"
  by (rule render_result_ok) (simp_all add: ex_items_valid, simp_all add: ex_env_later_def ex_env_def)

lemma ex_again_result:
  "result (generateInvoicePDF ex_env_again ex_order ex_user) = Inr (''/uploads/invoices/'' @ filename ex_env_again ex_order)"
  by (rule render_result_ok) (simp_all add: ex_items_valid, simp_all add: ex_env_again_def ex_env_def)

lemma ex_filenames:
  "filename ex_env_again ex_order = ''invoice-ORD-1001-1700000000000.pdf''"
  "filename ex_env_later ex_order = ''invoice-ORD-1001-1700000000001.pdf''"
  by (simp_all add: filename_def template_str_def ex_order_def ex_env_again_def ex_env_later_def ex_env_def number_defs)

subsection \<open>The two password-reset handlers\<close>

lemma status_reply [simp]: "status (reply c m) = c"
  by (simp add: reply_def)

lemma str_or_lit_Some_Nil [simp]: "str_or_lit (Some t) [] = t"
  by (simp add: str_or_lit_def)

lemma reset_password_success:
  assumes "status (snd (reset_password e tok npw db)) = 200"
  shows "\<exists>u t pw. tok = Some t \<and> t \<noteq> [] \<and> npw = Some pw \<and> 8 \<le> length pw
      \<and> findOne (token_matches e t) db = Some u
      \<and> fst (reset_password e tok npw db)
          = save (u\<lparr>acc_password := pw, passwordResetToken := None, passwordResetExpires := None\<rparr>) db"
  using assms
  by (cases tok; cases npw)
     (auto simp: reset_password_def str_truthy_def str_or_lit_def split: if_splits option.splits)

lemma reset_password_failure:
  assumes "status (snd (reset_password e tok npw db)) \<noteq> 200"
  shows "fst (reset_password e tok npw db) = db" and "status (snd (reset_password e tok npw db)) = 400"
  using assms
  by (auto simp: reset_password_def split: if_splits option.splits)

lemma reset_password_iff:
  assumes "t \<noteq> []"
  shows "status (snd (reset_password e (Some t) (Some pw) db)) = 200
     \<longleftrightarrow> 8 \<le> length pw \<and> (\<exists>u \<in> set db. passwordResetToken u = Some (sha256 e t)
            \<and> (\<exists>x. passwordResetExpires u = Some x \<and> clock e < x))"
proof -
  have m: "token_matches e t u \<longleftrightarrow> passwordResetToken u = Some (sha256 e t)
            \<and> (\<exists>x. passwordResetExpires u = Some x \<and> clock e < x)" for u
    by (auto simp: token_matches_def split: option.splits)
  have f: "(findOne (token_matches e t) db = None) \<longleftrightarrow> \<not> (\<exists>u \<in> set db. token_matches e t u)"
    by (auto simp: findOne_def find_None_iff)
  show ?thesis
  proof (cases "findOne (token_matches e t) db")
    case None
    with f have "\<not> (\<exists>u \<in> set db. token_matches e t u)" by simp
    with None assms show ?thesis
      by (auto simp: reset_password_def str_truthy_def str_or_lit_def m)
  next
    case (Some u)
    with f have "\<exists>u \<in> set db. token_matches e t u" by auto
    with Some assms show ?thesis
      by (cases "pw = []") (auto simp: reset_password_def str_truthy_def str_or_lit_def m)
  qed
qed

lemma save_rows:
  "v \<in> set (save u db) \<Longrightarrow> v = u \<or> (v \<in> set db \<and> acc_id v \<noteq> acc_id u)"
  by (auto simp: save_def split: if_splits)

lemma reset_password_once:
  assumes "findOne (token_matches e t) db = Some u"
    and "list_all (\<lambda>v. passwordResetToken v = Some (sha256 e t) \<longrightarrow> acc_id v = acc_id u) db"
    and "sha256 e2 = sha256 e"
  shows "status (snd (reset_password e2 (Some t) npw2
           (save (u\<lparr>acc_password := pw, passwordResetToken := None, passwordResetExpires := None\<rparr>) db))) = 400"
proof -
  let ?u = "u\<lparr>acc_password := pw, passwordResetToken := None, passwordResetExpires := None\<rparr>"
  have "\<not> token_matches e2 t v" if "v \<in> set (save ?u db)" for v
  proof -
    from save_rows[OF that] show ?thesis
    proof
      assume "v = ?u"
      then show ?thesis by (simp add: token_matches_def)
    next
      assume a: "v \<in> set db \<and> acc_id v \<noteq> acc_id ?u"
      with assms(2) have "passwordResetToken v \<noteq> Some (sha256 e t)" by (auto simp: list_all_iff)
      then show ?thesis by (simp add: token_matches_def assms(3))
    qed
  qed
  then have "findOne (token_matches e2 t) (save ?u db) = None"
    by (auto simp: findOne_def find_None_iff)
  then show ?thesis
    by (simp add: reset_password_def)
qed

lemma forgot_password_success:
  assumes "status (snd (snd (forgot_password e email db))) = 200"
  shows "\<exists>em u. email = Some em \<and> valid_email (trim em) \<and> findOne (\<lambda>u. acc_email u = trim em) db = Some u
      \<and> fst (forgot_password e email db)
          = save (u\<lparr>passwordResetToken := Some (sha256 e (randomToken e)),
                     passwordResetExpires := Some (clock e + 60 * 60 * 1000)\<rparr>) db
      \<and> fst (snd (forgot_password e email db))
          = [\<lparr>mail_to = acc_email u, mail_token = randomToken e, mail_name = acc_name u\<rparr>]"
  using assms
  by (cases email)
     (auto simp: forgot_password_def Let_def split: if_splits option.splits)

lemma findOne_Some_mem: "findOne P db = Some u \<Longrightarrow> u \<in> set db \<and> P u"
  by (auto simp: findOne_def find_Some_iff)

lemma save_mem: "u \<in> set db \<Longrightarrow> u\<lparr>acc_password := a, passwordResetToken := b, passwordResetExpires := c\<rparr> \<in> set (save (u\<lparr>acc_password := a, passwordResetToken := b, passwordResetExpires := c\<rparr>) db)"
  by (auto simp: save_def image_iff intro!: bexI[of _ u])

lemma ex_trim: "trim ''  asha@example.com '' = ''asha@example.com''"
  by (simp add: trim_def is_space_def)

lemma ex_valid_email: "valid_email ''asha@example.com''"
  by (simp add: valid_email_def is_space_def Let_def upt_rec)

lemma ex_forgot:
  "forgot_password ex_auth_env (Some ''  asha@example.com '') [ex_account] =
     (ex_db_pending,
      [\<lparr>mail_to = ''asha@example.com'', mail_token = ''a1b2c3'', mail_name = ''Asha''\<rparr>],
      \<lparr>status = 200, message = ''Password reset instructions have been sent to your email address'',
       body_resetToken = None\<rparr>)"
  by (simp add: forgot_password_def ex_trim ex_valid_email findOne_def save_def Let_def
        ex_account_def ex_auth_env_def ex_db_pending_def)

section \<open>Properties\<close>

subsection \<open>Column geometry\<close>

text \<open>
  C1. For the fixed column configuration (first column at margin + 10, widths
  180/42/52/32/70/80, gap 8, margin 40, page width 595.28) every column starts at the
  accumulated sum of the widths and gaps before it, and the last column ends at 546,
  within the right margin at 555.28. The statement has no input: it is a fact of the
  layout constants.
\<close>

theorem column_geometry_fits:
  "colItem = 50
   \<and> colSize = colItem + 180 + 8
   \<and> colColor = colItem + (180 + 8) + (42 + 8)
   \<and> colQty = colItem + (180 + 8) + (42 + 8) + (52 + 8)
   \<and> colPrice = colItem + (180 + 8) + (42 + 8) + (52 + 8) + (32 + 8)
   \<and> colTotal = colItem + (180 + 8) + (42 + 8) + (52 + 8) + (32 + 8) + (70 + 8)
   \<and> colTotal = 466
   \<and> colTotal + colTotalWidth = 546
   \<and> pageWidth - margin = 55528 / 100
   \<and> colTotal + colTotalWidth \<le> pageWidth - margin
   \<and> colTotal + colTotalWidth \<le> contentWidth + margin"
  by (simp add: geometry_defs)

subsection \<open>Validation of the items\<close>

text \<open>
  C2, as amended. For every input whose \<^verbatim>\<open>order.items\<close> is missing, not an array or empty,
  the render is rejected with the error \<^verbatim>\<open>Order items are missing or invalid\<close>, unless
  creating the invoices directory has failed before. The check comes after the first
  sections of the function: by then the invoices directory has been created if it did not
  exist, the output file has been opened for writing, and the header and the billing block
  have been drawn on the first page. Nothing of the table, the totals or the footer is
  drawn, and the document is not ended.
\<close>

theorem invalid_items_rejected:
  assumes "items_invalid (o_items ord)" and "existsSync e (invoicesDir e) \<or> \<not> mkdir_throws e"
  shows "(o_items ord = ItemsMissing \<or> (\<exists>v. o_items ord = ItemsScalar v) \<or> o_items ord = ItemsArray [])
    \<and> result (generateInvoicePDF e ord usr) = Inl InvalidItems
    \<and> (\<not> existsSync e (invoicesDir e) \<longrightarrow> MkdirSync (invoicesDir e) \<in> set (effects (generateInvoicePDF e ord usr)))
    \<and> CreateWriteStream (filepath e ord) ''w'' \<in> set (effects (generateInvoicePDF e ord usr))
    \<and> document (generateInvoicePDF e ord usr) = Some (billing_doc e ord usr)
    \<and> (\<exists>pre mid post. all_ops (billing_doc e ord usr) =
          pre @ [Text ''INVOICE'' margin invoiceTitleY (Some contentWidth) (Some AlignCenter)
                   \<lparr>st_size = 36, st_font = Helvetica_Bold, st_fill = primaryDark, st_opacity = 1\<rparr>]
          @ mid @ [Text ''Bill To:'' (margin + 10) (billToBoxY + 10) None None
                   \<lparr>st_size = 12, st_font = Helvetica_Bold, st_fill = primaryDark, st_opacity = 1\<rparr>]
          @ post)
    \<and> prev_pages (billing_doc e ord usr) = []
    \<and> \<not> ended (billing_doc e ord usr)"
proof -
  obtain lg where lg: "effects (generateInvoicePDF e ord usr) =
      ((if existsSync e (invoicesDir e) then [] else [MkdirSync (invoicesDir e)])
        @ [CreateWriteStream (filepath e ord) ''w'']) @ lg"
    using fst_draw_logo render_invalid_items(3)[OF assms] by metis
  have 1: "o_items ord = ItemsMissing \<or> (\<exists>v. o_items ord = ItemsScalar v) \<or> o_items ord = ItemsArray []"
    using assms(1) by (simp add: items_invalid_cases)
  have 3: "\<not> existsSync e (invoicesDir e) \<longrightarrow> MkdirSync (invoicesDir e) \<in> set (effects (generateInvoicePDF e ord usr))"
    by (simp add: lg)
  have 4: "CreateWriteStream (filepath e ord) ''w'' \<in> set (effects (generateInvoicePDF e ord usr))"
    by (simp add: lg)
  have 8: "\<not> ended (billing_doc e ord usr)"
    by (simp add: billing_doc_def ended_customer_section ended_header_section ended_draw_logo)
  show ?thesis
    by (intro conjI)
       (rule 1 render_invalid_items(1,2)[OF assms] 3 4 billing_doc_drawn billing_doc_facts(1) 8)+
qed

theorem invalid_items_rejected_witness:
  "items_invalid (o_items ex_order_empty)
   \<and> (existsSync ex_env (invoicesDir ex_env) \<or> \<not> mkdir_throws ex_env)
   \<and> result (generateInvoicePDF ex_env ex_order_empty ex_user) = Inl InvalidItems
   \<and> CreateWriteStream (filepath ex_env ex_order_empty) ''w'' \<in> set (effects (generateInvoicePDF ex_env ex_order_empty ex_user))
   \<and> document (generateInvoicePDF ex_env ex_order_empty ex_user) = Some (billing_doc ex_env ex_order_empty ex_user)"
proof -
  note t = invalid_items_rejected[OF ex_empty_invalid ex_env_mkdir, of ex_user]
  show ?thesis
    by (intro conjI)
       (rule ex_empty_invalid ex_env_mkdir t[THEN conjunct2, THEN conjunct1]
          t[THEN conjunct2, THEN conjunct2, THEN conjunct2, THEN conjunct1]
          t[THEN conjunct2, THEN conjunct2, THEN conjunct2, THEN conjunct2, THEN conjunct1])+
qed

text \<open>
  The claim as stated fails: for the example order with an empty item list the render is
  rejected, but the directory has been created, the output file has been opened, and
  eleven operations of the header and the billing block have been drawn.
\<close>

theorem items_checked_after_io_counterexample:
  "items_invalid (o_items ex_order_empty)
   \<and> result (generateInvoicePDF ex_env ex_order_empty ex_user) = Inl InvalidItems
   \<and> effects (generateInvoicePDF ex_env ex_order_empty ex_user) =
       [MkdirSync ''/srv/backend/uploads/invoices'',
        CreateWriteStream ''/srv/backend/uploads/invoices/invoice-ORD-1001-1700000000000.pdf'' ''w'']
   \<and> map_option (map text_of \<circ> all_ops) (document (generateInvoicePDF ex_env ex_order_empty ex_user)) =
       Some [''INVOICE'', ''Invoice No:'', ''ORD-1001'', ''Date:'', ''15 January 2024'', [], [],
             ''Bill To:'', ''Asha'', ''Mobile: 9876543210'', ''Email: asha@example.com'']"
proof -
  have f: "filepath ex_env ex_order_empty = ''/srv/backend/uploads/invoices/invoice-ORD-1001-1700000000000.pdf''"
    using ex_filename by (simp add: filepath_def filename_def ex_order_empty_def, simp add: ex_env_def)
  have e: "effects (generateInvoicePDF ex_env ex_order_empty ex_user) =
       [MkdirSync ''/srv/backend/uploads/invoices'',
        CreateWriteStream ''/srv/backend/uploads/invoices/invoice-ORD-1001-1700000000000.pdf'' ''w'']"
    by (simp add: render_invalid_items(3)[OF ex_empty_invalid ex_env_mkdir] ex_draw_logo f, simp add: ex_env_def)
  have o: "o_orderId ex_order_empty = Some ''ORD-1001''" "o_shippingAddress ex_order_empty = None"
    by (simp_all add: ex_order_empty_def ex_order_def)
  have b: "map text_of (all_ops (billing_doc ex_env ex_order_empty ex_user)) =
       [''INVOICE'', ''Invoice No:'', ''ORD-1001'', ''Date:'', ''15 January 2024'', [], [],
             ''Bill To:'', ''Asha'', ''Mobile: 9876543210'', ''Email: asha@example.com'']"
    using ex_billing_texts[OF o] by (simp only: ex_empty_invoiceDate)
  have d: "map_option (map text_of \<circ> all_ops) (document (generateInvoicePDF ex_env ex_order_empty ex_user)) =
       Some [''INVOICE'', ''Invoice No:'', ''ORD-1001'', ''Date:'', ''15 January 2024'', [], [],
             ''Bill To:'', ''Asha'', ''Mobile: 9876543210'', ''Email: asha@example.com'']"
    by (simp only: render_invalid_items(2)[OF ex_empty_invalid ex_env_mkdir] option.map comp_apply b)
  show ?thesis
    by (intro conjI) (rule ex_empty_invalid render_invalid_items(1)[OF ex_empty_invalid ex_env_mkdir] e d)+
qed

subsection \<open>The date of the invoice\<close>

text \<open>
  C3. The claim says that an order whose \<^verbatim>\<open>createdAt\<close> is missing or is an unparseable
  string shows today's date. For a missing date the function does so. For the string
  \<open>not-a-date\<close> it does not: \<^verbatim>\<open>toLocaleDateString\<close> does not raise on an invalid date, so the
  \<^verbatim>\<open>catch\<close> branch that would format the current time is never entered, and the date block
  shows the text \<open>Invalid Date\<close>. The render itself succeeds.
\<close>

theorem invalid_createdAt_prints_Invalid_Date:
  "o_createdAt ex_order_bad_date = Some (DateStr ''not-a-date'')
   \<and> parseDate ex_env ''not-a-date'' = None
   \<and> fmtDate ex_env (new_date ex_env) = ''14 November 2023''
   \<and> result (generateInvoicePDF ex_env ex_order_bad_date ex_user)
        = Inr (''/uploads/invoices/'' @ filename ex_env ex_order_bad_date)
   \<and> invoiceDate ex_env ex_order_bad_date = ''Invalid Date''
   \<and> map_option (take 5 \<circ> map text_of \<circ> all_ops) (document (generateInvoicePDF ex_env ex_order_bad_date ex_user))
        = Some [''INVOICE'', ''Invoice No:'', ''ORD-1001'', ''Date:'', ''Invalid Date'']
   \<and> invoiceDate ex_env (ex_order\<lparr>o_createdAt := None\<rparr>) = ''14 November 2023''"
proof -
  have 1: "o_createdAt ex_order_bad_date = Some (DateStr ''not-a-date'')"
    by (simp add: ex_order_bad_date_def)
  have 2: "parseDate ex_env ''not-a-date'' = None" and 3: "fmtDate ex_env (new_date ex_env) = ''14 November 2023''"
    by (simp_all add: ex_env_def)
  have 5: "invoiceDate ex_env ex_order_bad_date = ''Invalid Date''"
    by (rule invoiceDate_invalid_string[OF 1 _ 2]) simp
  have o: "o_orderId ex_order_bad_date = Some ''ORD-1001''" "o_shippingAddress ex_order_bad_date = None"
    by (simp_all add: ex_order_bad_date_def ex_order_def)
  have b: "map text_of (all_ops (billing_doc ex_env ex_order_bad_date ex_user)) =
       [''INVOICE'', ''Invoice No:'', ''ORD-1001'', ''Date:'', ''Invalid Date'', [], [],
             ''Bill To:'', ''Asha'', ''Mobile: 9876543210'', ''Email: asha@example.com'']"
    using ex_billing_texts[OF o] by (simp only: 5)
  obtain dfin rest where d: "document (generateInvoicePDF ex_env ex_order_bad_date ex_user) = Some dfin"
    and a: "all_ops dfin = all_ops (billing_doc ex_env ex_order_bad_date ex_user) @ rest"
    using render_doc_prefix[OF ex_bad_date_result] by blast
  have 6: "map_option (take 5 \<circ> map text_of \<circ> all_ops) (document (generateInvoicePDF ex_env ex_order_bad_date ex_user))
        = Some [''INVOICE'', ''Invoice No:'', ''ORD-1001'', ''Date:'', ''Invalid Date'']"
    by (simp add: d a b)
  show ?thesis
    by (intro conjI) (rule 1 2 3 ex_bad_date_result 5 6 ex_missing_invoiceDate)+
qed

subsection \<open>Pagination of the line-item table\<close>



subsection \<open>The totals block\<close>

text \<open>
  C5. In every successful render the document is the footer drawn over the totals block,
  and the totals block draws, in this order: the Subtotal line (always), the Shipping line
  exactly when the parsed shipping cost is greater than 0, the Tax line exactly when the
  parsed tax is greater than 0, and last the Total line, at size 13 in Helvetica-Bold
  where the other lines are at size 10 in Helvetica. With shipping cost 0 and tax 0 only
  Subtotal and Total appear.
\<close>

theorem totals_block_lines:
  assumes "result (generateInvoicePDF e ord usr) = Inr r"
  shows "\<exists>d y. document (generateInvoicePDF e ord usr) = Some (footer_section (totals_section e ord y d))
    \<and> map text_summary (ops_since d (totals_section e ord y d)) =
        [Some (''Subtotal:'', 10, Helvetica), Some (rs e (money (o_subtotal ord)), 10, Helvetica)]
        @ (if js_gt0 (money (o_shippingCost ord))
           then [Some (''Shipping:'', 10, Helvetica), Some (rs e (money (o_shippingCost ord)), 10, Helvetica)]
           else [])
        @ (if js_gt0 (money (o_tax ord))
           then [Some (''Tax (GST):'', 10, Helvetica), Some (rs e (money (o_tax ord)), 10, Helvetica)]
           else [])
        @ [Some (''Total:'', 13, Helvetica_Bold), Some (rs e (money (o_total ord)), 13, Helvetica_Bold)]
    \<and> (''Shipping:'' \<in> set (map text_of (ops_since d (totals_section e ord y d)))
          \<longleftrightarrow> js_gt0 (money (o_shippingCost ord)))
    \<and> (''Tax (GST):'' \<in> set (map text_of (ops_since d (totals_section e ord y d)))
          \<longleftrightarrow> js_gt0 (money (o_tax ord)))
    \<and> (money (o_shippingCost ord) = Fin 0 \<and> money (o_tax ord) = Fin 0 \<longrightarrow>
          map text_of (ops_since d (totals_section e ord y d)) =
            [''Subtotal:'', rs e (money (o_subtotal ord)), ''Total:'', rs e (money (o_total ord))])"
proof -
  obtain d y where doc: "document (generateInvoicePDF e ord usr) = Some (footer_section (totals_section e ord y d))"
    using render_success_shape[OF assms] by blast
  have rs_ne: "\<And>x. rs e x \<noteq> ''Shipping:''" "\<And>x. rs e x \<noteq> ''Tax (GST):''"
    "\<And>x. ''Shipping:'' \<noteq> rs e x" "\<And>x. ''Tax (GST):'' \<noteq> rs e x"
    by (simp_all add: rs_def)
  note ops = ops_since_totals_section[of d e ord y]
  have texts: "map text_of (ops_since d (totals_section e ord y d)) =
      [''Subtotal:'', rs e (money (o_subtotal ord))]
      @ (if js_gt0 (money (o_shippingCost ord)) then [''Shipping:'', rs e (money (o_shippingCost ord))] else [])
      @ (if js_gt0 (money (o_tax ord)) then [''Tax (GST):'', rs e (money (o_tax ord))] else [])
      @ [''Total:'', rs e (money (o_total ord))]"
    by (simp add: ops)
  have summ: "map text_summary (ops_since d (totals_section e ord y d)) =
        [Some (''Subtotal:'', 10, Helvetica), Some (rs e (money (o_subtotal ord)), 10, Helvetica)]
        @ (if js_gt0 (money (o_shippingCost ord))
           then [Some (''Shipping:'', 10, Helvetica), Some (rs e (money (o_shippingCost ord)), 10, Helvetica)]
           else [])
        @ (if js_gt0 (money (o_tax ord))
           then [Some (''Tax (GST):'', 10, Helvetica), Some (rs e (money (o_tax ord)), 10, Helvetica)]
           else [])
        @ [Some (''Total:'', 13, Helvetica_Bold), Some (rs e (money (o_total ord)), 13, Helvetica_Bold)]"
    by (simp add: ops)
  have ship: "''Shipping:'' \<in> set (map text_of (ops_since d (totals_section e ord y d)))
          \<longleftrightarrow> js_gt0 (money (o_shippingCost ord))"
    unfolding texts using rs_ne by simp
  have tax: "''Tax (GST):'' \<in> set (map text_of (ops_since d (totals_section e ord y d)))
          \<longleftrightarrow> js_gt0 (money (o_tax ord))"
    unfolding texts using rs_ne by simp
  have none: "money (o_shippingCost ord) = Fin 0 \<and> money (o_tax ord) = Fin 0 \<longrightarrow>
          map text_of (ops_since d (totals_section e ord y d)) =
            [''Subtotal:'', rs e (money (o_subtotal ord)), ''Total:'', rs e (money (o_total ord))]"
    unfolding texts by simp
  show ?thesis
    by (rule exI[of _ d], rule exI[of _ y], intro conjI) (rule doc summ ship tax none)+
qed



theorem totals_block_lines_witness:
  "result (generateInvoicePDF ex_env ex_order ex_user) = Inr (''/uploads/invoices/'' @ filename ex_env ex_order)
   \<and> (\<exists>d y. document (generateInvoicePDF ex_env ex_order ex_user)
                = Some (footer_section (totals_section ex_env ex_order y d))
          \<and> map text_of (ops_since d (totals_section ex_env ex_order y d)) =
              [''Subtotal:'', ''Rs. 999.00'', ''Total:'', ''Rs. 1234.56''])"
proof -
  from totals_block_lines[OF ex_render_result]
  obtain d y where
    A: "document (generateInvoicePDF ex_env ex_order ex_user) = Some (footer_section (totals_section ex_env ex_order y d))"
    and B: "money (o_shippingCost ex_order) = Fin 0 \<and> money (o_tax ex_order) = Fin 0 \<longrightarrow>
          map text_of (ops_since d (totals_section ex_env ex_order y d)) =
            [''Subtotal:'', rs ex_env (money (o_subtotal ex_order)), ''Total:'', rs ex_env (money (o_total ex_order))]"
    by (elim exE conjE)
  from B have "map text_of (ops_since d (totals_section ex_env ex_order y d)) =
              [''Subtotal:'', ''Rs. 999.00'', ''Total:'', ''Rs. 1234.56'']"
    by (simp only: ex_money simp_thms)
  with A ex_render_result show ?thesis by (intro conjI exI[of _ d] exI[of _ y])
qed

subsection \<open>The total of a line\<close>

text \<open>
  C6. In every successful render the Total cells drawn by the loop are, item by item and in
  order, \<open>Rs.\<close> followed by \<^verbatim>\<open>(price * quantity).toFixed(2)\<close>, where \<^verbatim>\<open>price\<close> is
  \<^verbatim>\<open>parseFloat(item.price || 0)\<close> and \<^verbatim>\<open>quantity\<close> is \<^verbatim>\<open>item.quantity || 1\<close>, both read at render
  time; for a numeric price \<open>p\<close> and a quantity \<open>q\<close> other than 0 the product is \<open>p * q\<close>. No
  other property of an item is read: changing every property the renderer has no name
  for, a stored line total among them, changes nothing in the outcome of the render.
\<close>

theorem line_total_recomputed:
  "(result (generateInvoicePDF e ord usr) = Inr r \<longrightarrow>
      (\<exists>dfin pre post. document (generateInvoicePDF e ord usr) = Some dfin
          \<and> all_ops dfin = pre @ loop_ops e ord usr @ post
          \<and> cells_at colTotal 10 (loop_ops e ord usr) =
              map (\<lambda>it. ''Rs. '' @ toFixed2 (bigToString e)
                     (jsmul (parseFloat (js_or (i_price it) (JNum (Fin 0)))) (quantity_of it)))
                (items_of (o_items ord))))
   \<and> (i_price it = JNum (Fin p) \<and> i_quantity it = Some (Fin q) \<and> q \<noteq> 0 \<longrightarrow>
        jsmul (parseFloat (js_or (i_price it) (JNum (Fin 0)))) (quantity_of it) = Fin (p * q))
   \<and> (o_items ord = ItemsArray xs \<longrightarrow>
        generateInvoicePDF e (ord\<lparr>o_items := ItemsArray (map (\<lambda>it. it\<lparr>i_other := g it\<rparr>) xs)\<rparr>) usr
        = generateInvoicePDF e ord usr)"
proof (intro conjI impI)
  assume ok: "result (generateInvoicePDF e ord usr) = Inr r"
  have c: "cells_at colTotal 10 (loop_ops e ord usr) =
              map (\<lambda>it. ''Rs. '' @ toFixed2 (bigToString e)
                     (jsmul (parseFloat (js_or (i_price it) (JNum (Fin 0)))) (quantity_of it)))
                (items_of (o_items ord))"
    by (rule loop_ops_cells) (simp add: cells_at_row_ops(3) rs_def money_def)
  from render_doc_ops[OF ok] obtain dfin pre post where
    "document (generateInvoicePDF e ord usr) = Some dfin" "all_ops dfin = pre @ loop_ops e ord usr @ post"
    by blast
  with c show "\<exists>dfin pre post. document (generateInvoicePDF e ord usr) = Some dfin
          \<and> all_ops dfin = pre @ loop_ops e ord usr @ post
          \<and> cells_at colTotal 10 (loop_ops e ord usr) =
              map (\<lambda>it. ''Rs. '' @ toFixed2 (bigToString e)
                     (jsmul (parseFloat (js_or (i_price it) (JNum (Fin 0)))) (quantity_of it)))
                (items_of (o_items ord))"
    by blast
next
  assume "i_price it = JNum (Fin p) \<and> i_quantity it = Some (Fin q) \<and> q \<noteq> 0"
  then show "jsmul (parseFloat (js_or (i_price it) (JNum (Fin 0)))) (quantity_of it) = Fin (p * q)"
    by (simp add: js_or_def quantity_of_def)
next
  assume xs: "o_items ord = ItemsArray xs"
  have inv: "items_invalid (ItemsArray (map (\<lambda>it. it\<lparr>i_other := g it\<rparr>) xs)) = items_invalid (ItemsArray xs)"
    by (simp add: items_invalid_def items_truthy_def isArray_def items_of_def)
  have hs: "header_section e (ord\<lparr>o_items := ys\<rparr>) d = header_section e ord d" for ys d
    by (simp add: header_section_def invoiceDate_def dateValue_def)
  have cs: "customer_section (ord\<lparr>o_items := ys\<rparr>) usr d = customer_section ord usr d" for ys d
    by (simp add: customer_section_def)
  have ts: "totals_section e (ord\<lparr>o_items := ys\<rparr>) y d = totals_section e ord y d" for ys y d
    by (simp add: totals_section_def)
  have fn: "filename e (ord\<lparr>o_items := ys\<rparr>) = filename e ord" for ys
    by (simp add: filename_def)
  have tt: "table_and_totals e (ord\<lparr>o_items := ItemsArray (map (\<lambda>it. it\<lparr>i_other := g it\<rparr>) xs)\<rparr>) d
      = table_and_totals e ord d" for d
    by (simp add: table_and_totals_def inv xs ts items_of_def forEach_items_other hexToRgb_primaryDark Let_def)
  show "generateInvoicePDF e (ord\<lparr>o_items := ItemsArray (map (\<lambda>it. it\<lparr>i_other := g it\<rparr>) xs)\<rparr>) usr
        = generateInvoicePDF e ord usr"
    by (simp add: generateInvoicePDF_def hs cs tt fn filepath_def Let_def split: sum.splits)
qed

theorem line_total_recomputed_witness:
  "result (generateInvoicePDF ex_env ex_order ex_user) = Inr (''/uploads/invoices/'' @ filename ex_env ex_order)
   \<and> i_other ex_item = [(''total'', JNum (Fin 1))]
   \<and> i_price (ex_item\<lparr>i_price := JNum (Fin (999 / 2))\<rparr>) = JNum (Fin (999 / 2))
   \<and> i_quantity (ex_item\<lparr>i_price := JNum (Fin (999 / 2))\<rparr>) = Some (Fin 2)
   \<and> jsmul (parseFloat (js_or (i_price (ex_item\<lparr>i_price := JNum (Fin (999 / 2))\<rparr>)) (JNum (Fin 0))))
         (quantity_of (ex_item\<lparr>i_price := JNum (Fin (999 / 2))\<rparr>)) = Fin 999
   \<and> o_items ex_order = ItemsArray [ex_item]
   \<and> generateInvoicePDF ex_env (ex_order\<lparr>o_items := ItemsArray [ex_item\<lparr>i_other := []\<rparr>]\<rparr>) ex_user
        = generateInvoicePDF ex_env ex_order ex_user
   \<and> (\<exists>dfin pre post. document (generateInvoicePDF ex_env ex_order ex_user) = Some dfin
          \<and> all_ops dfin = pre @ loop_ops ex_env ex_order ex_user @ post
          \<and> cells_at colTotal 10 (loop_ops ex_env ex_order ex_user) = [''Rs. 999.00''])"
proof -
  note t = line_total_recomputed[where e=ex_env and ord=ex_order and usr=ex_user
      and r="''/uploads/invoices/'' @ filename ex_env ex_order"
      and it="ex_item\<lparr>i_price := JNum (Fin (999 / 2))\<rparr>" and p="999 / 2" and q=2
      and xs="[ex_item]" and g="\<lambda>it. []"]
  have o: "i_other ex_item = [(''total'', JNum (Fin 1))]" by (simp add: ex_item_def)
  have p: "i_price (ex_item\<lparr>i_price := JNum (Fin (999 / 2))\<rparr>) = JNum (Fin (999 / 2))" by simp
  have q: "i_quantity (ex_item\<lparr>i_price := JNum (Fin (999 / 2))\<rparr>) = Some (Fin 2)" by (simp add: ex_item_def)
  have x: "o_items ex_order = ItemsArray [ex_item]" by (simp add: ex_order_def)
  have m: "jsmul (parseFloat (js_or (i_price (ex_item\<lparr>i_price := JNum (Fin (999 / 2))\<rparr>)) (JNum (Fin 0))))
         (quantity_of (ex_item\<lparr>i_price := JNum (Fin (999 / 2))\<rparr>)) = Fin 999"
    using t[THEN conjunct2, THEN conjunct1] p q by simp
  have g: "generateInvoicePDF ex_env (ex_order\<lparr>o_items := ItemsArray [ex_item\<lparr>i_other := []\<rparr>]\<rparr>) ex_user
        = generateInvoicePDF ex_env ex_order ex_user"
    using t[THEN conjunct2, THEN conjunct2, THEN mp, OF x] by simp
  have v: "''Rs. '' @ toFixed2 (bigToString ex_env)
             (jsmul (parseFloat (js_or (i_price ex_item) (JNum (Fin 0)))) (quantity_of ex_item)) = ''Rs. 999.00''"
    by (simp add: ex_item_def ex_env_def quantity_of_def number_defs)
  from t[THEN conjunct1, THEN mp, OF ex_render_result] obtain dfin pre post where
    1: "document (generateInvoicePDF ex_env ex_order ex_user) = Some dfin"
    and 2: "all_ops dfin = pre @ loop_ops ex_env ex_order ex_user @ post"
    and 3: "cells_at colTotal 10 (loop_ops ex_env ex_order ex_user) =
              map (\<lambda>it. ''Rs. '' @ toFixed2 (bigToString ex_env)
                     (jsmul (parseFloat (js_or (i_price it) (JNum (Fin 0)))) (quantity_of it)))
                (items_of (o_items ex_order))"
    by (elim exE conjE)
  from 3 have r3: "cells_at colTotal 10 (loop_ops ex_env ex_order ex_user) = [''Rs. 999.00'']"
    by (simp only: x items_of_def items_field.case list.map v)
  from 1 2 r3 have 4: "\<exists>dfin pre post. document (generateInvoicePDF ex_env ex_order ex_user) = Some dfin
          \<and> all_ops dfin = pre @ loop_ops ex_env ex_order ex_user @ post
          \<and> cells_at colTotal 10 (loop_ops ex_env ex_order ex_user) = [''Rs. 999.00'']"
    by (intro exI[of _ dfin] exI[of _ pre] exI[of _ post] conjI)
  show ?thesis
    by (intro conjI) (rule ex_render_result o p q m x g 4)+
qed

subsection \<open>The artifact reference\<close>

text \<open>
  C7, as amended. Every successful render returns the reference
  \<^verbatim>\<open>/uploads/invoices/invoice-<orderId>-<epochMillis>.pdf\<close>, where the milliseconds are the
  reading of \<^verbatim>\<open>Date.now()\<close> in that run, and it has opened the file of that name in the
  invoices directory with the flag \<^verbatim>\<open>w\<close> (create or truncate), not in exclusive mode. For a
  second successful render of the same input, in an environment that may differ in the
  clock, in the file system and in the two failure switches: the two references are
  distinct exactly when the two readings of \<^verbatim>\<open>Date.now()\<close> differ, and the two documents are
  the same when the logo candidates exist as before and the current date formats to the
  same text.
\<close>

theorem artifact_reference:
  assumes "result (generateInvoicePDF e ord usr) = Inr r"
    and "e' = e\<lparr>date_now := t', new_date := n', existsSync := ex', mkdir_throws := m', stream_error := s'\<rparr>"
    and "result (generateInvoicePDF e' ord usr) = Inr r'"
    and "list_all (\<lambda>p. ex' p = existsSync e p) (logoPaths e)"
    and "fmtDate e n' = fmtDate e (new_date e)"
  shows "r = ''/uploads/invoices/invoice-'' @ template_str (o_orderId ord) @ ''-'' @ show_nat (date_now e) @ ''.pdf''
    \<and> CreateWriteStream
         (invoicesDir e @ ''/invoice-'' @ template_str (o_orderId ord) @ ''-'' @ show_nat (date_now e) @ ''.pdf'') ''w''
       \<in> set (effects (generateInvoicePDF e ord usr))
    \<and> (r \<noteq> r' \<longleftrightarrow> t' \<noteq> date_now e)
    \<and> document (generateInvoicePDF e' ord usr) = document (generateInvoicePDF e ord usr)"
proof -
  have 1: "r = ''/uploads/invoices/invoice-'' @ template_str (o_orderId ord) @ ''-'' @ show_nat (date_now e) @ ''.pdf''"
    using render_success_effects(1)[OF assms(1)] by (simp add: filename_def)
  have 2: "CreateWriteStream
         (invoicesDir e @ ''/invoice-'' @ template_str (o_orderId ord) @ ''-'' @ show_nat (date_now e) @ ''.pdf'') ''w''
       \<in> set (effects (generateInvoicePDF e ord usr))"
    using render_success_effects(2)[OF assms(1)] by (simp add: filename_def)
  have "r = r' \<longleftrightarrow> filename e ord = filename e' ord"
    using render_success_effects(1)[OF assms(1)] render_success_effects(1)[OF assms(3)] by simp
  also have "\<dots> \<longleftrightarrow> date_now e = date_now e'" by (rule filename_eq_iff)
  also have "\<dots> \<longleftrightarrow> t' = date_now e" by (auto simp: assms(2))
  finally have 3: "r \<noteq> r' \<longleftrightarrow> t' \<noteq> date_now e" by simp
  have 4: "document (generateInvoicePDF e' ord usr) = document (generateInvoicePDF e ord usr)"
    by (rule render_doc_env[OF assms(1,3)]) (simp_all add: assms(2,4,5))
  show ?thesis by (intro conjI) (rule 1 2 3 4)+
qed

theorem artifact_reference_witness:
  "result (generateInvoicePDF ex_env ex_order ex_user) = Inr ''/uploads/invoices/invoice-ORD-1001-1700000000000.pdf''
   \<and> result (generateInvoicePDF ex_env_later ex_order ex_user) = Inr ''/uploads/invoices/invoice-ORD-1001-1700000000001.pdf''
   \<and> list_all (\<lambda>p. (p = ''/srv/backend/uploads/invoices'') = existsSync ex_env p) (logoPaths ex_env)
   \<and> fmtDate ex_env 1700000000001 = fmtDate ex_env (new_date ex_env)
   \<and> ''/uploads/invoices/invoice-ORD-1001-1700000000000.pdf'' \<noteq> ''/uploads/invoices/invoice-ORD-1001-1700000000001.pdf''
   \<and> document (generateInvoicePDF ex_env_later ex_order ex_user) = document (generateInvoicePDF ex_env ex_order ex_user)"
proof -
  have r1: "result (generateInvoicePDF ex_env ex_order ex_user) = Inr ''/uploads/invoices/invoice-ORD-1001-1700000000000.pdf''"
    using ex_render_result by (simp add: ex_filename)
  have r2: "result (generateInvoicePDF ex_env_later ex_order ex_user) = Inr ''/uploads/invoices/invoice-ORD-1001-1700000000001.pdf''"
    using ex_later_result by (simp add: ex_filenames)
  have l: "list_all (\<lambda>p. (p = ''/srv/backend/uploads/invoices'') = existsSync ex_env p) (logoPaths ex_env)"
    by (simp add: ex_env_def)
  have f: "fmtDate ex_env 1700000000001 = fmtDate ex_env (new_date ex_env)"
    by (simp add: ex_env_def)
  note t = artifact_reference[OF r1 ex_env_later_def r2 l f]
  have n: "''/uploads/invoices/invoice-ORD-1001-1700000000000.pdf'' \<noteq> ''/uploads/invoices/invoice-ORD-1001-1700000000001.pdf''"
    by simp
  show ?thesis
    by (intro conjI) (rule r1 r2 l f n t[THEN conjunct2, THEN conjunct2, THEN conjunct2])+
qed

text \<open>
  The claim as stated fails: a second render of the example order within the same
  millisecond returns the same reference as the first, and both runs open the same path
  with the flag \<^verbatim>\<open>w\<close>, which is not the exclusive flag \<^verbatim>\<open>wx\<close>.
\<close>

theorem same_file_twice_counterexample:
  "result (generateInvoicePDF ex_env ex_order ex_user) = Inr ''/uploads/invoices/invoice-ORD-1001-1700000000000.pdf''
   \<and> result (generateInvoicePDF ex_env_again ex_order ex_user) = Inr ''/uploads/invoices/invoice-ORD-1001-1700000000000.pdf''
   \<and> effects (generateInvoicePDF ex_env ex_order ex_user) =
       [MkdirSync ''/srv/backend/uploads/invoices'',
        CreateWriteStream ''/srv/backend/uploads/invoices/invoice-ORD-1001-1700000000000.pdf'' ''w'']
   \<and> effects (generateInvoicePDF ex_env_again ex_order ex_user) =
       [CreateWriteStream ''/srv/backend/uploads/invoices/invoice-ORD-1001-1700000000000.pdf'' ''w'']
   \<and> ''w'' \<noteq> ''wx''"
proof -
  have r1: "result (generateInvoicePDF ex_env ex_order ex_user) = Inr ''/uploads/invoices/invoice-ORD-1001-1700000000000.pdf''"
    using ex_render_result by (simp add: ex_filename)
  have r2: "result (generateInvoicePDF ex_env_again ex_order ex_user) = Inr ''/uploads/invoices/invoice-ORD-1001-1700000000000.pdf''"
    using ex_again_result by (simp add: ex_filenames)
  have lp: "logoPath ex_env_again = None" by (simp add: logoPath_def ex_env_again_def ex_env_def)
  have dl: "draw_logo ex_env_again (fx, d) = (fx, d)" for fx d by (simp add: draw_logo_def lp)
  have e1: "effects (generateInvoicePDF ex_env ex_order ex_user) =
       [MkdirSync ''/srv/backend/uploads/invoices'',
        CreateWriteStream ''/srv/backend/uploads/invoices/invoice-ORD-1001-1700000000000.pdf'' ''w'']"
    by (simp add: render_effects[OF ex_env_mkdir] ex_draw_logo filepath_def ex_filename, simp add: ex_env_def)
  have m: "existsSync ex_env_again (invoicesDir ex_env_again) \<or> \<not> mkdir_throws ex_env_again"
    by (simp add: ex_env_again_def ex_env_def)
  have e2: "effects (generateInvoicePDF ex_env_again ex_order ex_user) =
       [CreateWriteStream ''/srv/backend/uploads/invoices/invoice-ORD-1001-1700000000000.pdf'' ''w'']"
    by (simp add: render_effects[OF m] dl filepath_def ex_filenames, simp add: ex_env_again_def ex_env_def)
  have w: "''w'' \<noteq> ''wx''" by simp
  show ?thesis by (intro conjI) (rule r1 r2 e1 e2 w)+
qed

subsection \<open>The format of monetary values\<close>

text \<open>
  C8, as amended. Every monetary value printed on the invoice (the price and the total of
  a line, subtotal, shipping, tax and grand total) is the text \<open>Rs.\<close> followed by
  \<^verbatim>\<open>toFixed(2)\<close> of a number, which for every amount read from the input is
  \<^verbatim>\<open>parseFloat(value || 0)\<close>. A missing or otherwise falsy value is coerced to 0 and prints
  \<open>Rs. 0.00\<close>, and every finite number of magnitude below \<open>10^21\<close> prints with at least one
  integer digit, a point and exactly two fraction digits. A string that \<^verbatim>\<open>parseFloat\<close>
  cannot read is not coerced to 0.
\<close>

theorem money_rendering:
  "(\<not> truthy v \<longrightarrow> rs e (money v) = ''Rs. 0.00'')
   \<and> rs e x = ''Rs. '' @ toFixed2 (bigToString e) x
   \<and> (\<bar>q\<bar> < 10 ^ 21 \<longrightarrow> two_decimals (toFixed2 (bigToString e) (Fin q)))
   \<and> (result (generateInvoicePDF e ord usr) = Inr r \<longrightarrow>
        cells_at colPrice 10 (loop_ops e ord usr) = map (\<lambda>it. rs e (money (i_price it))) (items_of (o_items ord))
        \<and> cells_at colTotal 10 (loop_ops e ord usr) =
            map (\<lambda>it. rs e (jsmul (money (i_price it)) (quantity_of it))) (items_of (o_items ord))
        \<and> (\<exists>d y. document (generateInvoicePDF e ord usr) = Some (footer_section (totals_section e ord y d))
              \<and> map text_of (ops_since d (totals_section e ord y d)) =
                  [''Subtotal:'', rs e (money (o_subtotal ord))]
                  @ (if js_gt0 (money (o_shippingCost ord)) then [''Shipping:'', rs e (money (o_shippingCost ord))] else [])
                  @ (if js_gt0 (money (o_tax ord)) then [''Tax (GST):'', rs e (money (o_tax ord))] else [])
                  @ [''Total:'', rs e (money (o_total ord))]))"
proof (intro conjI impI)
  assume "\<not> truthy v"
  then show "rs e (money v) = ''Rs. 0.00''" by (rule money_falsy)
next
  show "rs e x = ''Rs. '' @ toFixed2 (bigToString e) x" by (simp add: rs_def)
next
  assume "\<bar>q\<bar> < 10 ^ 21"
  then show "two_decimals (toFixed2 (bigToString e) (Fin q))" by (rule two_decimals_toFixed2)
next
  show "cells_at colPrice 10 (loop_ops e ord usr) = map (\<lambda>it. rs e (money (i_price it))) (items_of (o_items ord))"
    by (rule loop_ops_cells) (rule cells_at_row_ops(2))
next
  show "cells_at colTotal 10 (loop_ops e ord usr) =
            map (\<lambda>it. rs e (jsmul (money (i_price it)) (quantity_of it))) (items_of (o_items ord))"
    by (rule loop_ops_cells) (rule cells_at_row_ops(3))
next
  assume ok: "result (generateInvoicePDF e ord usr) = Inr r"
  obtain d y where doc: "document (generateInvoicePDF e ord usr) = Some (footer_section (totals_section e ord y d))"
    using render_success_shape[OF ok] by blast
  have texts: "map text_of (ops_since d (totals_section e ord y d)) =
      [''Subtotal:'', rs e (money (o_subtotal ord))]
      @ (if js_gt0 (money (o_shippingCost ord)) then [''Shipping:'', rs e (money (o_shippingCost ord))] else [])
      @ (if js_gt0 (money (o_tax ord)) then [''Tax (GST):'', rs e (money (o_tax ord))] else [])
      @ [''Total:'', rs e (money (o_total ord))]"
    by (simp add: ops_since_totals_section)
  show "\<exists>d y. document (generateInvoicePDF e ord usr) = Some (footer_section (totals_section e ord y d))
              \<and> map text_of (ops_since d (totals_section e ord y d)) =
                  [''Subtotal:'', rs e (money (o_subtotal ord))]
                  @ (if js_gt0 (money (o_shippingCost ord)) then [''Shipping:'', rs e (money (o_shippingCost ord))] else [])
                  @ (if js_gt0 (money (o_tax ord)) then [''Tax (GST):'', rs e (money (o_tax ord))] else [])
                  @ [''Total:'', rs e (money (o_total ord))]"
    by (rule exI[of _ d], rule exI[of _ y], intro conjI) (rule doc texts)+
qed

theorem money_rendering_witness:
  "\<not> truthy Undefined
   \<and> rs ex_env (money Undefined) = ''Rs. 0.00''
   \<and> \<bar>999 / 2 :: rat\<bar> < 10 ^ 21
   \<and> two_decimals (toFixed2 (bigToString ex_env) (Fin (999 / 2)))
   \<and> toFixed2 (bigToString ex_env) (Fin (999 / 2)) = ''499.50''
   \<and> result (generateInvoicePDF ex_env ex_order ex_user) = Inr (''/uploads/invoices/'' @ filename ex_env ex_order)
   \<and> cells_at colPrice 10 (loop_ops ex_env ex_order ex_user) = [''Rs. 499.50'']"
proof -
  note t = money_rendering[where v=Undefined and e=ex_env and q="999 / 2" and ord=ex_order and usr=ex_user
      and r="''/uploads/invoices/'' @ filename ex_env ex_order"]
  have a: "\<not> truthy Undefined" by simp
  have b: "\<bar>999 / 2 :: rat\<bar> < 10 ^ 21" by simp
  have v: "toFixed2 (bigToString ex_env) (Fin (999 / 2)) = ''499.50''"
    by (simp add: ex_env_def number_defs)
  have p: "rs ex_env (money (i_price ex_item)) = ''Rs. 499.50''"
    by (simp add: ex_item_def ex_env_def number_defs)
  have i: "items_of (o_items ex_order) = [ex_item]" by (simp add: ex_order_def items_of_def)
  have 1: "rs ex_env (money Undefined) = ''Rs. 0.00''"
    by (rule t[THEN conjunct1, THEN mp, OF a])
  have 2: "two_decimals (toFixed2 (bigToString ex_env) (Fin (999 / 2)))"
    by (rule t[THEN conjunct2, THEN conjunct2, THEN conjunct1, THEN mp, OF b])
  have 3: "cells_at colPrice 10 (loop_ops ex_env ex_order ex_user) = [''Rs. 499.50'']"
    using t[THEN conjunct2, THEN conjunct2, THEN conjunct2, THEN mp, OF ex_render_result, THEN conjunct1]
    by (simp add: i p)
  show ?thesis by (intro conjI) (rule a 1 b 2 v ex_render_result 3)+
qed


text \<open>
  The claim as stated fails: a price given as the text \<open>abc\<close> is truthy, so \<^verbatim>\<open>|| 0\<close> keeps it,
  \<^verbatim>\<open>parseFloat\<close> returns \<open>NaN\<close>, and both the Price and the Total cell of the row read
  \<open>Rs. NaN\<close>.
\<close>

theorem money_not_coerced_counterexample:
  "result (generateInvoicePDF ex_env ex_order_nan ex_user) = Inr (''/uploads/invoices/'' @ filename ex_env ex_order_nan)
   \<and> items_of (o_items ex_order_nan) = [ex_item\<lparr>i_price := JStr ''abc''\<rparr>]
   \<and> parseFloat (js_or (JStr ''abc'') (JNum (Fin 0))) = NaN
   \<and> cells_at colPrice 10 (loop_ops ex_env ex_order_nan ex_user) = [''Rs. NaN'']
   \<and> cells_at colTotal 10 (loop_ops ex_env ex_order_nan ex_user) = [''Rs. NaN'']
   \<and> \<not> two_decimals ''NaN''"
proof -
  have i: "items_of (o_items ex_order_nan) = [ex_item\<lparr>i_price := JStr ''abc''\<rparr>]"
    by (simp add: ex_order_nan_def items_of_def)
  have n: "parseFloat (js_or (JStr ''abc'') (JNum (Fin 0))) = NaN"
    by (simp add: number_defs)
  have p: "cells_at colPrice 10 (loop_ops ex_env ex_order_nan ex_user) = [''Rs. NaN'']"
    by (subst loop_ops_cells[OF cells_at_row_ops(2)]) (simp add: i money_def n rs_def)
  have t: "cells_at colTotal 10 (loop_ops ex_env ex_order_nan ex_user) = [''Rs. NaN'']"
    by (subst loop_ops_cells[OF cells_at_row_ops(3)]) (simp add: i money_def n rs_def)
  have d: "\<not> two_decimals ''NaN''" by (simp add: two_decimals_def)
  show ?thesis by (intro conjI) (rule exnan_render_result i n p t d)+
qed

subsection \<open>The grand total\<close>

text \<open>
  C9. In every successful render the last line of the totals block is the label
  \<open>Total:\<close> followed by \<open>Rs.\<close> and \<^verbatim>\<open>parseFloat(order.total || 0).toFixed(2)\<close>: the stored
  \<^verbatim>\<open>order.total\<close>, coerced to a number. It is not recomputed: replacing the subtotal, the
  shipping cost, the tax and the items of the order by anything else leaves the printed
  Total unchanged. In the example order the subtotal (999.00, which is also the sum of the
  line totals) differs from the stored total, and the stored 1234.56 is printed.
\<close>

theorem grand_total_is_stored_total:
  assumes "result (generateInvoicePDF e ord usr) = Inr r"
  shows "\<exists>d y. document (generateInvoicePDF e ord usr) = Some (footer_section (totals_section e ord y d))
    \<and> text_summary (last (butlast (ops_since d (totals_section e ord y d)))) = Some (''Total:'', 13, Helvetica_Bold)
    \<and> text_summary (last (ops_since d (totals_section e ord y d))) =
        Some (''Rs. '' @ toFixed2 (bigToString e) (parseFloat (js_or (o_total ord) (JNum (Fin 0)))), 13, Helvetica_Bold)
    \<and> (\<forall>sub ship tax its.
          text_of (last (ops_since d (totals_section e
             (ord\<lparr>o_subtotal := sub, o_shippingCost := ship, o_tax := tax, o_items := its\<rparr>) y d)))
          = text_of (last (ops_since d (totals_section e ord y d))))"
proof -
  obtain d y where doc: "document (generateInvoicePDF e ord usr) = Some (footer_section (totals_section e ord y d))"
    using render_success_shape[OF assms] by blast
  have a: "text_summary (last (butlast (ops_since d (totals_section e ord y d)))) = Some (''Total:'', 13, Helvetica_Bold)"
    by (simp add: ops_since_totals_section butlast_append)
  have b: "\<And>ord. text_summary (last (ops_since d (totals_section e ord y d))) =
        Some (''Rs. '' @ toFixed2 (bigToString e) (parseFloat (js_or (o_total ord) (JNum (Fin 0)))), 13, Helvetica_Bold)"
    by (simp add: ops_since_totals_section rs_def money_def)
  have c: "\<forall>sub ship tax its.
          text_of (last (ops_since d (totals_section e
             (ord\<lparr>o_subtotal := sub, o_shippingCost := ship, o_tax := tax, o_items := its\<rparr>) y d)))
          = text_of (last (ops_since d (totals_section e ord y d)))"
    by (simp add: ops_since_totals_section)
  show ?thesis
    by (rule exI[of _ d], rule exI[of _ y], intro conjI) (rule doc a b c)+
qed

theorem grand_total_is_stored_total_witness:
  "result (generateInvoicePDF ex_env ex_order ex_user) = Inr (''/uploads/invoices/'' @ filename ex_env ex_order)
   \<and> (\<exists>d y. document (generateInvoicePDF ex_env ex_order ex_user)
                = Some (footer_section (totals_section ex_env ex_order y d))
          \<and> text_summary (last (ops_since d (totals_section ex_env ex_order y d)))
              = Some (''Rs. 1234.56'', 13, Helvetica_Bold))"
proof -
  have t: "''Rs. '' @ toFixed2 (bigToString ex_env) (parseFloat (js_or (o_total ex_order) (JNum (Fin 0)))) = ''Rs. 1234.56''"
    using ex_money(4) by (simp add: rs_def money_def)
  from grand_total_is_stored_total[OF ex_render_result]
  obtain d y where
    A: "document (generateInvoicePDF ex_env ex_order ex_user) = Some (footer_section (totals_section ex_env ex_order y d))"
    and B: "text_summary (last (ops_since d (totals_section ex_env ex_order y d))) =
        Some (''Rs. '' @ toFixed2 (bigToString ex_env) (parseFloat (js_or (o_total ex_order) (JNum (Fin 0)))), 13, Helvetica_Bold)"
    by (elim exE conjE)
  from B have "text_summary (last (ops_since d (totals_section ex_env ex_order y d))) = Some (''Rs. 1234.56'', 13, Helvetica_Bold)"
    by (simp only: t)
  with A ex_render_result show ?thesis by (intro conjI exI[of _ d] exI[of _ y])
qed

subsection \<open>Password-reset tokens\<close>

text \<open>
  C10. A successful \<^verbatim>\<open>forgot-password\<close> stores, in the row of the account found by the trimmed
  e-mail address, the SHA-256 hash of the issued token and an expiry one hour after the
  current time; the token itself goes into the mail only. For a presented (non-empty)
  token, \<^verbatim>\<open>reset-password\<close> succeeds if and only if the new password has at least 8
  characters and some row stores the hash of the presented token with an expiry strictly
  later than now. On success the row found gets the new password and both
  \<^verbatim>\<open>passwordResetToken\<close> and \<^verbatim>\<open>passwordResetExpires\<close> are cleared; when no other account
  stores the same hash, every later request with the same token is answered 400. A
  request that does not succeed leaves the table as it was. The hash function is a
  parameter: the statement holds for every function in its place.
\<close>

theorem password_reset_tokens:
  "(status (snd (snd (forgot_password e1 email db))) = 200 \<longrightarrow>
      (\<exists>em u. email = Some em \<and> findOne (\<lambda>u. acc_email u = trim em) db = Some u
         \<and> fst (forgot_password e1 email db)
             = save (u\<lparr>passwordResetToken := Some (sha256 e1 (randomToken e1)),
                        passwordResetExpires := Some (clock e1 + 60 * 60 * 1000)\<rparr>) db
         \<and> fst (snd (forgot_password e1 email db))
             = [\<lparr>mail_to = acc_email u, mail_token = randomToken e1, mail_name = acc_name u\<rparr>]))
   \<and> (t \<noteq> [] \<longrightarrow>
        (status (snd (reset_password e2 (Some t) (Some pw) db)) = 200
          \<longleftrightarrow> 8 \<le> length pw
              \<and> (\<exists>u \<in> set db. passwordResetToken u = Some (sha256 e2 t)
                    \<and> (\<exists>x. passwordResetExpires u = Some x \<and> clock e2 < x))))
   \<and> (status (snd (reset_password e2 tok npw db)) = 200 \<longrightarrow>
        (\<exists>u t pw. tok = Some t \<and> npw = Some pw \<and> findOne (token_matches e2 t) db = Some u
           \<and> fst (reset_password e2 tok npw db)
               = save (u\<lparr>acc_password := pw, passwordResetToken := None, passwordResetExpires := None\<rparr>) db
           \<and> u\<lparr>acc_password := pw, passwordResetToken := None, passwordResetExpires := None\<rparr>
               \<in> set (fst (reset_password e2 tok npw db))
           \<and> (list_all (\<lambda>v. passwordResetToken v = Some (sha256 e2 t) \<longrightarrow> acc_id v = acc_id u) db \<longrightarrow>
                (\<forall>e3 npw3. sha256 e3 = sha256 e2 \<longrightarrow>
                   status (snd (reset_password e3 tok npw3 (fst (reset_password e2 tok npw db)))) = 400))))
   \<and> (status (snd (reset_password e2 tok npw db)) \<noteq> 200 \<longrightarrow> fst (reset_password e2 tok npw db) = db)"
proof (intro conjI impI)
  assume "status (snd (snd (forgot_password e1 email db))) = 200"
  from forgot_password_success[OF this]
  show "\<exists>em u. email = Some em \<and> findOne (\<lambda>u. acc_email u = trim em) db = Some u
         \<and> fst (forgot_password e1 email db)
             = save (u\<lparr>passwordResetToken := Some (sha256 e1 (randomToken e1)),
                        passwordResetExpires := Some (clock e1 + 60 * 60 * 1000)\<rparr>) db
         \<and> fst (snd (forgot_password e1 email db))
             = [\<lparr>mail_to = acc_email u, mail_token = randomToken e1, mail_name = acc_name u\<rparr>]"
    by blast
next
  assume "t \<noteq> []"
  then show "status (snd (reset_password e2 (Some t) (Some pw) db)) = 200
          \<longleftrightarrow> 8 \<le> length pw
              \<and> (\<exists>u \<in> set db. passwordResetToken u = Some (sha256 e2 t)
                    \<and> (\<exists>x. passwordResetExpires u = Some x \<and> clock e2 < x))"
    by (rule reset_password_iff)
next
  assume "status (snd (reset_password e2 tok npw db)) = 200"
  from reset_password_success[OF this] obtain u t pw where
    a: "tok = Some t" "npw = Some pw" "findOne (token_matches e2 t) db = Some u"
    and b: "fst (reset_password e2 tok npw db)
          = save (u\<lparr>acc_password := pw, passwordResetToken := None, passwordResetExpires := None\<rparr>) db"
    by blast
  have c: "u\<lparr>acc_password := pw, passwordResetToken := None, passwordResetExpires := None\<rparr>
               \<in> set (fst (reset_password e2 tok npw db))"
    unfolding b using findOne_Some_mem[OF a(3)] by (intro save_mem) simp
  have d: "list_all (\<lambda>v. passwordResetToken v = Some (sha256 e2 t) \<longrightarrow> acc_id v = acc_id u) db \<longrightarrow>
                (\<forall>e3 npw3. sha256 e3 = sha256 e2 \<longrightarrow>
                   status (snd (reset_password e3 tok npw3 (fst (reset_password e2 tok npw db)))) = 400)"
  proof (intro impI allI)
    fix e3 :: auth_env and npw3
    assume l: "list_all (\<lambda>v. passwordResetToken v = Some (sha256 e2 t) \<longrightarrow> acc_id v = acc_id u) db"
      and s: "sha256 e3 = sha256 e2"
    show "status (snd (reset_password e3 tok npw3 (fst (reset_password e2 tok npw db)))) = 400"
      unfolding b unfolding a(1) by (rule reset_password_once[OF a(3) l s])
  qed
  show "\<exists>u t pw. tok = Some t \<and> npw = Some pw \<and> findOne (token_matches e2 t) db = Some u
           \<and> fst (reset_password e2 tok npw db)
               = save (u\<lparr>acc_password := pw, passwordResetToken := None, passwordResetExpires := None\<rparr>) db
           \<and> u\<lparr>acc_password := pw, passwordResetToken := None, passwordResetExpires := None\<rparr>
               \<in> set (fst (reset_password e2 tok npw db))
           \<and> (list_all (\<lambda>v. passwordResetToken v = Some (sha256 e2 t) \<longrightarrow> acc_id v = acc_id u) db \<longrightarrow>
                (\<forall>e3 npw3. sha256 e3 = sha256 e2 \<longrightarrow>
                   status (snd (reset_password e3 tok npw3 (fst (reset_password e2 tok npw db)))) = 400))"
    by (rule exI[of _ u], rule exI[of _ t], rule exI[of _ pw], intro conjI) (rule a b c d)+
next
  assume "status (snd (reset_password e2 tok npw db)) \<noteq> 200"
  then show "fst (reset_password e2 tok npw db) = db" by (rule reset_password_failure(1))
qed

theorem password_reset_tokens_witness:
  "status (snd (snd (forgot_password ex_auth_env (Some ''  asha@example.com '') [ex_account]))) = 200
   \<and> fst (forgot_password ex_auth_env (Some ''  asha@example.com '') [ex_account]) = ex_db_pending
   \<and> ''a1b2c3'' \<noteq> []
   \<and> status (snd (reset_password ex_auth_env_later (Some ''a1b2c3'') (Some ''new-secret'') ex_db_pending)) = 200
   \<and> fst (reset_password ex_auth_env_later (Some ''a1b2c3'') (Some ''new-secret'') ex_db_pending)
        = [ex_account\<lparr>acc_password := ''new-secret''\<rparr>]
   \<and> status (snd (reset_password ex_auth_env_later (Some ''a1b2c3'') (Some ''another-secret'')
          (fst (reset_password ex_auth_env_later (Some ''a1b2c3'') (Some ''new-secret'') ex_db_pending)))) = 400
   \<and> status (snd (reset_password ex_auth_env_later (Some ''wrong'') (Some ''new-secret'') ex_db_pending)) \<noteq> 200
   \<and> fst (reset_password ex_auth_env_later (Some ''wrong'') (Some ''new-secret'') ex_db_pending) = ex_db_pending"
proof -
  note t = password_reset_tokens[where ?e1.0=ex_auth_env and email="Some ''  asha@example.com ''" and db="[ex_account]"]
  note r = password_reset_tokens[where ?e2.0=ex_auth_env_later and t="''a1b2c3''" and pw="''new-secret''"
      and db=ex_db_pending and tok="Some ''a1b2c3''" and npw="Some ''new-secret''"]
  note w = password_reset_tokens[where ?e2.0=ex_auth_env_later and db=ex_db_pending and tok="Some ''wrong''"
      and npw="Some ''new-secret''"]
  have 1: "status (snd (snd (forgot_password ex_auth_env (Some ''  asha@example.com '') [ex_account]))) = 200"
    and 2: "fst (forgot_password ex_auth_env (Some ''  asha@example.com '') [ex_account]) = ex_db_pending"
    by (simp_all add: ex_forgot)
  have 3: "''a1b2c3'' \<noteq> []" by simp
  have 4: "status (snd (reset_password ex_auth_env_later (Some ''a1b2c3'') (Some ''new-secret'') ex_db_pending)) = 200"
    unfolding r[THEN conjunct2, THEN conjunct1, THEN mp, OF 3]
    by (simp add: ex_db_pending_def ex_auth_env_later_def ex_auth_env_def)
  from r[THEN conjunct2, THEN conjunct2, THEN conjunct1, THEN mp, OF 4] obtain u t pw where
    a: "Some ''a1b2c3'' = Some t" "Some ''new-secret'' = Some pw"
      "findOne (token_matches ex_auth_env_later t) ex_db_pending = Some u"
    and b: "fst (reset_password ex_auth_env_later (Some ''a1b2c3'') (Some ''new-secret'') ex_db_pending)
          = save (u\<lparr>acc_password := pw, passwordResetToken := None, passwordResetExpires := None\<rparr>) ex_db_pending"
    and d: "list_all (\<lambda>v. passwordResetToken v = Some (sha256 ex_auth_env_later t) \<longrightarrow> acc_id v = acc_id u) ex_db_pending \<longrightarrow>
                (\<forall>e3 npw3. sha256 e3 = sha256 ex_auth_env_later \<longrightarrow>
                   status (snd (reset_password e3 (Some ''a1b2c3'') npw3
                     (fst (reset_password ex_auth_env_later (Some ''a1b2c3'') (Some ''new-secret'') ex_db_pending)))) = 400)"
    by (elim exE conjE)
  have u: "u = hd ex_db_pending"
    using a(3) by (simp add: findOne_def ex_db_pending_def split: if_splits)
  have 5: "fst (reset_password ex_auth_env_later (Some ''a1b2c3'') (Some ''new-secret'') ex_db_pending)
        = [ex_account\<lparr>acc_password := ''new-secret''\<rparr>]"
    unfolding b using a(2) by (simp add: u save_def ex_db_pending_def ex_account_def)
  have l: "list_all (\<lambda>v. passwordResetToken v = Some (sha256 ex_auth_env_later t) \<longrightarrow> acc_id v = acc_id u) ex_db_pending"
    by (simp add: u ex_db_pending_def)
  have 6: "status (snd (reset_password ex_auth_env_later (Some ''a1b2c3'') (Some ''another-secret'')
          (fst (reset_password ex_auth_env_later (Some ''a1b2c3'') (Some ''new-secret'') ex_db_pending)))) = 400"
    using d[THEN mp, OF l] by simp
  have 7: "status (snd (reset_password ex_auth_env_later (Some ''wrong'') (Some ''new-secret'') ex_db_pending)) \<noteq> 200"
    by (simp add: reset_password_def str_truthy_def findOne_def token_matches_def
          ex_db_pending_def ex_auth_env_later_def ex_auth_env_def)
  have 8: "fst (reset_password ex_auth_env_later (Some ''wrong'') (Some ''new-secret'') ex_db_pending) = ex_db_pending"
    by (rule w[THEN conjunct2, THEN conjunct2, THEN conjunct2, THEN mp, OF 7])
  show ?thesis by (intro conjI) (rule 1 2 3 4 5 6 7 8)+
qed

end
